theory Spec2Isabelle
  imports Main "HOL-Library.Word"
begin

text \<open>
  A shallow embedding of the verification pipeline of the zkKYC application: the digest and
  nullifier utilities, the three proof generators and the verifier, the selection of the
  network profile, the session hook that drives a verification, and the worker that runs in
  the confidential environment. What the platform provides (the clock, \<open>Date\<close> parsing,
  SHA-256, \<open>JSON.stringify\<close>, the file system, the remote services) is a parameter of the
  functions that use it; an asynchronous function is the function of its result.
\<close>

section \<open>Data model (src/lib/types/kyc.ts)\<close>

datatype DocumentType = passport | national_id | driving_license | aadhaar | pan_card

text \<open>The string a \<open>DocumentType\<close> value is at run time (the type is a union of string literals).\<close>

fun DocumentType_string :: "DocumentType \<Rightarrow> string" where
  "DocumentType_string passport = ''passport''"
| "DocumentType_string national_id = ''national_id''"
| "DocumentType_string driving_license = ''driving_license''"
| "DocumentType_string aadhaar = ''aadhaar''"
| "DocumentType_string pan_card = ''pan_card''"

record KYCData =
  documentType :: DocumentType
  documentNumber :: string
  fullName :: string
  dateOfBirth :: string
  nationality :: string
  expiryDate :: string
  documentHash :: "string option"

text \<open>\<open>ZKProof\<close>: the field \<open>proof\<close> of the source is \<open>proof_field\<close> here.\<close>

record ZKProof =
  proof_field :: string
  publicSignals :: "string list"
  nullifierHash :: string

datatype ZKCircuitType = age_verification | nationality_check | document_validity | full_kyc

text \<open>\<open>ZKVerificationResult\<close> of zkproof.ts; its fields \<open>isValid\<close> and \<open>nullifierHash\<close>
  carry the prefix \<open>zk_\<close>, the names being taken by other records.\<close>

record ZKVerificationResult =
  zk_isValid :: bool
  zk_nullifierHash :: string
  publicOutputs :: "string list"

section \<open>The JavaScript runtime the code calls\<close>

text \<open>A JavaScript number that is an integer or NaN: \<open>None\<close> is NaN.\<close>

type_synonym number = "int option"

text \<open>A valid \<open>Date\<close> object, by what its accessors return: the calendar fields in local
  time and the instant in milliseconds.\<close>

record Date =
  getFullYear :: int
  getMonth :: int
  getDate :: int
  getTime :: int

text \<open>The objects handed to \<open>JSON.stringify\<close> are flat: a list of keys and values, in the
  order the source writes them.\<close>

datatype jvalue = JNum number | JBool bool | JStr string

type_synonym jobject = "(string \<times> jvalue) list"

text \<open>What the platform provides: \<open>new Date(s)\<close> (\<open>None\<close> is Invalid Date, whose
  accessors all return NaN), \<open>crypto.subtle.digest('SHA-256', new TextEncoder().encode(s))\<close>
  as the bytes of the digest, \<open>JSON.stringify\<close>, and the exponent form in which
  \<open>Number.prototype.toString\<close> writes a number of magnitude 1e21 or more.\<close>

record runtime =
  Date_parse :: "string \<Rightarrow> Date option"
  sha256 :: "string \<Rightarrow> 8 word list"
  JSON_stringify :: "jobject \<Rightarrow> string"
  Number_exponential :: "int \<Rightarrow> string"

text \<open>Arithmetic and comparison of numbers: NaN propagates through \<open>-\<close>, and every
  comparison with NaN is false.\<close>

fun js_sub :: "number \<Rightarrow> number \<Rightarrow> number" where
  "js_sub (Some a) (Some b) = Some (a - b)"
| "js_sub _ _ = None"

fun js_add :: "number \<Rightarrow> number \<Rightarrow> number" where
  "js_add (Some a) (Some b) = Some (a + b)"
| "js_add _ _ = None"

fun js_lt :: "number \<Rightarrow> number \<Rightarrow> bool" where
  "js_lt (Some a) (Some b) = (a < b)"
| "js_lt _ _ = False"

fun js_gt :: "number \<Rightarrow> number \<Rightarrow> bool" where
  "js_gt (Some a) (Some b) = (a > b)"
| "js_gt _ _ = False"

fun js_ge :: "number \<Rightarrow> number \<Rightarrow> bool" where
  "js_ge (Some a) (Some b) = (a \<ge> b)"
| "js_ge _ _ = False"

fun js_eq :: "number \<Rightarrow> number \<Rightarrow> bool" where
  "js_eq (Some a) (Some b) = (a = b)"
| "js_eq _ _ = False"

text \<open>\<open>Math.floor(x / d)\<close> for integers \<open>x\<close> and a positive integer \<open>d\<close>: the floor
  of the quotient, which is \<open>div\<close> on \<open>int\<close>.\<close>

fun js_floor_div :: "number \<Rightarrow> int \<Rightarrow> number" where
  "js_floor_div (Some a) d = Some (a div d)"
| "js_floor_div None d = None"

text \<open>\<open>Number.prototype.toString(radix)\<close> on a non-negative integer below 1e21: its digits,
  most significant first. \<open>toString()\<close> on an integer: the decimal digits with a sign when
  the magnitude is below 1e21, and the exponent form of the runtime from there on.\<close>

definition hex_digits :: string where
  "hex_digits = ''0123456789abcdef''"

definition digit_char :: "int \<Rightarrow> char" where
  "digit_char d = hex_digits ! nat d"

function digits :: "int \<Rightarrow> int \<Rightarrow> string" where
  "digits radix n =
     (if radix < 2 \<or> n < radix then [digit_char n]
      else digits radix (n div radix) @ [digit_char (n mod radix)])"
  by pat_completeness auto
termination
  by (relation "measure (\<lambda>(radix, n). nat n)") (auto simp: int_div_less_self)

declare digits.simps [simp del]

definition decimal :: "int \<Rightarrow> string" where
  "decimal i = (if i < 0 then CHR ''-'' # digits 10 (- i) else digits 10 i)"

definition toString :: "runtime \<Rightarrow> int \<Rightarrow> string" where
  "toString rt i =
     (if - 1000000000000000000000 < i \<and> i < 1000000000000000000000 then decimal i
      else Number_exponential rt i)"

text \<open>\<open>String.prototype.padStart(w, c)\<close> with a one-character filler.\<close>

definition padStart :: "nat \<Rightarrow> char \<Rightarrow> string \<Rightarrow> string" where
  "padStart w c s = replicate (w - length s) c @ s"

section \<open>Cryptographic utilities (src/lib/utils/crypto.ts)\<close>

text \<open>\<open>hashData\<close>: each byte of the digest as two hexadecimal digits, joined.\<close>

definition hashData :: "runtime \<Rightarrow> string \<Rightarrow> string" where
  "hashData rt data =
     (let hashArray = sha256 rt data
      in concat (map (\<lambda>b. padStart 2 (CHR ''0'') (digits 16 (uint b))) hashArray))"

definition generateNullifierHash :: "runtime \<Rightarrow> string \<Rightarrow> string \<Rightarrow> string" where
  "generateNullifierHash rt documentHash' userAddress =
     (let combined = documentHash' @ '':'' @ userAddress @ '':nullifier''
      in hashData rt combined)"

definition createCommitment :: "runtime \<Rightarrow> KYCData \<Rightarrow> string" where
  "createCommitment rt kycData =
     (let dataString = JSON_stringify rt
        [(''documentType'', JStr (DocumentType_string (documentType kycData))),
         (''documentNumber'', JStr (documentNumber kycData)),
         (''dateOfBirth'', JStr (dateOfBirth kycData)),
         (''nationality'', JStr (nationality kycData))]
      in hashData rt dataString)"

section \<open>Proof generation and verification (src/lib/services/zkproof.ts)\<close>

definition bool_signal :: "bool \<Rightarrow> string" where
  "bool_signal b = (if b then ''1'' else ''0'')"

text \<open>\<open>generateAgeVerificationProof\<close>; \<open>today\<close> is what \<open>new Date()\<close> returns in the call.\<close>

definition generateAgeVerificationProof ::
  "runtime \<Rightarrow> Date \<Rightarrow> string \<Rightarrow> int \<Rightarrow> string \<Rightarrow> ZKProof" where
  "generateAgeVerificationProof rt today dateOfBirth' minimumAge userAddress =
     (let birthDate = Date_parse rt dateOfBirth';
          age = js_sub (Some (getFullYear today)) (map_option getFullYear birthDate);
          monthDiff = js_sub (Some (getMonth today)) (map_option getMonth birthDate);
          age = (if js_lt monthDiff (Some 0) \<or>
                    (js_eq monthDiff (Some 0) \<and>
                     js_lt (Some (getDate today)) (map_option getDate birthDate))
                 then js_sub age (Some 1) else age);
          isAboveMinimumAge = js_ge age (Some minimumAge);
          privateWitness =
            [(''birthYear'', JNum (map_option getFullYear birthDate)),
             (''birthMonth'', JNum (js_add (map_option getMonth birthDate) (Some 1))),
             (''birthDay'', JNum (map_option getDate birthDate)),
             (''currentYear'', JNum (Some (getFullYear today))),
             (''currentMonth'', JNum (Some (getMonth today + 1))),
             (''currentDay'', JNum (Some (getDate today)))];
          proofInput = JSON_stringify rt (privateWitness @
            [(''minimumAge'', JNum (Some minimumAge)),
             (''result'', JBool isAboveMinimumAge)]);
          proofHash = hashData rt proofInput;
          nullifierHash' = generateNullifierHash rt proofHash userAddress
      in \<lparr>proof_field = proofHash,
          publicSignals =
            [bool_signal isAboveMinimumAge,
             toString rt minimumAge,
             toString rt (getFullYear today)],
          nullifierHash = nullifierHash'\<rparr>)"

text \<open>\<open>generateDocumentValidityProof\<close>; \<open>expiry > today\<close> compares the two instants.\<close>

definition generateDocumentValidityProof ::
  "runtime \<Rightarrow> Date \<Rightarrow> string \<Rightarrow> string \<Rightarrow> string \<Rightarrow> ZKProof" where
  "generateDocumentValidityProof rt today expiryDate' documentType' userAddress =
     (let expiry = Date_parse rt expiryDate';
          isValid = js_gt (map_option getTime expiry) (Some (getTime today));
          daysUntilExpiry =
            js_floor_div (js_sub (map_option getTime expiry) (Some (getTime today)))
              (1000 * 60 * 60 * 24);
          hasMinimumValidity = js_gt daysUntilExpiry (Some 30);
          proofInput = JSON_stringify rt
            [(''documentType'', JStr documentType'),
             (''expiryYear'', JNum (map_option getFullYear expiry)),
             (''expiryMonth'', JNum (js_add (map_option getMonth expiry) (Some 1))),
             (''isValid'', JBool isValid),
             (''hasMinimumValidity'', JBool hasMinimumValidity)];
          proofHash = hashData rt proofInput;
          nullifierHash' = generateNullifierHash rt proofHash userAddress
      in \<lparr>proof_field = proofHash,
          publicSignals = [bool_signal isValid, bool_signal hasMinimumValidity],
          nullifierHash = nullifierHash'\<rparr>)"

text \<open>The options of \<open>generateFullKYCProof\<close>: both fields may be absent.\<close>

record KYCOptions =
  opt_minimumAge :: "int option"
  allowedNationalities :: "string list option"

text \<open>The three readings of the clock in one call of \<open>generateFullKYCProof\<close>: \<open>new Date()\<close>
  in the age proof, \<open>new Date()\<close> in the document proof, and \<open>Date.now()\<close>.\<close>

record clock =
  ageToday :: Date
  docToday :: Date
  now :: int

definition generateFullKYCProof ::
  "runtime \<Rightarrow> clock \<Rightarrow> KYCData \<Rightarrow> string \<Rightarrow> KYCOptions \<Rightarrow> ZKProof" where
  "generateFullKYCProof rt clk kycData userAddress options =
     (let minimumAge = (case opt_minimumAge options of None \<Rightarrow> 18 | Some m \<Rightarrow> m);
          ageProof = generateAgeVerificationProof rt (ageToday clk)
                       (dateOfBirth kycData) minimumAge userAddress;
          docProof = generateDocumentValidityProof rt (docToday clk)
                       (expiryDate kycData) (DocumentType_string (documentType kycData))
                       userAddress;
          nationalityValid =
            (case allowedNationalities options of
               None \<Rightarrow> True
             | Some allowed \<Rightarrow>
                 if length allowed > 0 then List.member allowed (nationality kycData)
                 else True);
          combinedInput = JSON_stringify rt
            [(''ageProof'', JStr (proof_field ageProof)),
             (''docProof'', JStr (proof_field docProof)),
             (''nationalityValid'', JBool nationalityValid),
             (''timestamp'', JNum (Some (now clk)))];
          combinedProofHash = hashData rt combinedInput;
          nullifierHash' = generateNullifierHash rt
            (DocumentType_string (documentType kycData) @ '':'' @
               hashData rt (documentNumber kycData))
            userAddress;
          isAgeValid = (publicSignals ageProof ! 0 = ''1'');
          isDocValid = (publicSignals docProof ! 0 = ''1'');
          isFullyValid = (isAgeValid \<and> isDocValid \<and> nationalityValid)
      in \<lparr>proof_field = combinedProofHash,
          publicSignals =
            [bool_signal isFullyValid,
             bool_signal isAgeValid,
             bool_signal isDocValid,
             bool_signal nationalityValid,
             toString rt minimumAge],
          nullifierHash = nullifierHash'\<rparr>)"

text \<open>\<open>verifyZKProof\<close>: a string is truthy when it is not empty.\<close>

definition verifyZKProof :: "ZKProof \<Rightarrow> ZKCircuitType \<Rightarrow> ZKVerificationResult" where
  "verifyZKProof prf circuitType =
     (let isValidFormat =
            (proof_field prf \<noteq> [] \<and>
             length (proof_field prf) = 64 \<and>
             length (publicSignals prf) > 0)
      in if \<not> isValidFormat then
           \<lparr>zk_isValid = False,
            zk_nullifierHash = nullifierHash prf,
            publicOutputs = []\<rparr>
         else
           (let isProofValid = (publicSignals prf ! 0 = ''1'')
            in \<lparr>zk_isValid = isProofValid,
                zk_nullifierHash = nullifierHash prf,
                publicOutputs = publicSignals prf\<rparr>))"

section \<open>Network profiles (src/lib/types/kyc.ts and the two versions of the iExec service)\<close>

record NetworkConfig =
  chainId :: int
  name :: string
  workerpoolAddress :: string
  dataProtectorSubgraph :: string
  ipfsGateway :: string
  ipfsUploadUrl :: string
  isExperimental :: bool

definition ARBITRUM_SEPOLIA_CONFIG :: NetworkConfig where
  "ARBITRUM_SEPOLIA_CONFIG =
     \<lparr>chainId = 421614,
      name = ''arbitrum-sepolia-testnet'',
      workerpoolAddress = ''0xB967057a21dc6A66A29721d96b8Aa7454B7c383F'',
      dataProtectorSubgraph = ''https://thegraph.arbitrum-sepolia-testnet.iex.ec/api/subgraphs/id/5YjRPLtjS6GH6bB4yY55Qg4HzwtRGQ8TaHtGf9UBWWd'',
      ipfsGateway = ''https://ipfs-gateway.arbitrum-sepolia-testnet.iex.ec'',
      ipfsUploadUrl = ''https://ipfs-upload.arbitrum-sepolia-testnet.iex.ec'',
      isExperimental = True\<rparr>"

definition ARBITRUM_MAINNET_CONFIG :: NetworkConfig where
  "ARBITRUM_MAINNET_CONFIG =
     \<lparr>chainId = 42161,
      name = ''arbitrum-mainnet'',
      workerpoolAddress = ''0x2C06263943180Cc024dAFfeEe15612DB6e5fD248'',
      dataProtectorSubgraph = ''https://thegraph.arbitrum.iex.ec/api/subgraphs/id/Ep5zs5zVr4tDiVuQJepUu51e5eWYJpka624X4DMBxe3u'',
      ipfsGateway = ''https://ipfs-gateway.arbitrum-mainnet.iex.ec'',
      ipfsUploadUrl = ''https://ipfs-upload.arbitrum-mainnet.iex.ec'',
      isExperimental = False\<rparr>"

text \<open>\<open>getNetworkConfig\<close> of src/unnamed/part\_004 (the service with logging).\<close>

definition getNetworkConfig :: "int \<Rightarrow> NetworkConfig" where
  "getNetworkConfig cid =
     (if cid = 421614 then ARBITRUM_MAINNET_CONFIG else ARBITRUM_SEPOLIA_CONFIG)"

text \<open>\<open>getNetworkConfig\<close> of src/unnamed/part\_001 (the service without logging).\<close>

definition getNetworkConfig_001 :: "int \<Rightarrow> NetworkConfig" where
  "getNetworkConfig_001 cid =
     (if cid = 42161 then ARBITRUM_MAINNET_CONFIG else ARBITRUM_SEPOLIA_CONFIG)"

section \<open>Local checks and the simulated enclave (crypto.ts, iExec service)\<close>

record ProtectedData =
  address :: string
  dataHash :: string
  pd_timestamp :: int
  encryptedData :: "string option"

record VerificationAttributes =
  attr_isAdult :: bool
  attr_isNotExpired :: bool
  attr_isNotSanctioned :: bool

record VerificationResult =
  isValid :: bool
  vr_timestamp :: int
  proofHash :: string
  enclaveSignature :: string
  attributes :: VerificationAttributes

record IExecResult =
  taskId :: string
  result :: VerificationResult

text \<open>\<open>isDocumentValid\<close> and \<open>isAdult\<close> of crypto.ts; \<open>today\<close> is the \<open>new Date()\<close> of the
  call. \<open>isAdult\<close> is called with its default minimum age of 18.\<close>

definition isDocumentValid :: "runtime \<Rightarrow> Date \<Rightarrow> string \<Rightarrow> bool" where
  "isDocumentValid rt today expiryDate' =
     (let expiry = Date_parse rt expiryDate'
      in js_gt (map_option getTime expiry) (Some (getTime today)))"

definition isAdult :: "runtime \<Rightarrow> Date \<Rightarrow> string \<Rightarrow> int \<Rightarrow> bool" where
  "isAdult rt today dateOfBirth' minimumAge =
     (let birthDate = Date_parse rt dateOfBirth';
          age = js_sub (Some (getFullYear today)) (map_option getFullYear birthDate);
          monthDiff = js_sub (Some (getMonth today)) (map_option getMonth birthDate)
      in if js_lt monthDiff (Some 0) \<or>
            (js_eq monthDiff (Some 0) \<and>
             js_lt (Some (getDate today)) (map_option getDate birthDate))
         then js_ge (js_sub age (Some 1)) (Some minimumAge)
         else js_ge age (Some minimumAge))"

text \<open>The readings of the clock in one call of \<open>simulateVerification\<close>.\<close>

record sim_clock =
  validityToday :: Date
  adultToday :: Date
  proofNow :: int
  resultNow :: int

definition simulateVerification ::
  "runtime \<Rightarrow> sim_clock \<Rightarrow> KYCData \<Rightarrow> string \<Rightarrow> VerificationResult" where
  "simulateVerification rt sc kycData userAddress =
     (let isValidDocument = isDocumentValid rt (validityToday sc) (expiryDate kycData);
          isUserAdult = isAdult rt (adultToday sc) (dateOfBirth kycData) 18;
          isNotSanctioned = True;
          valid = (isValidDocument \<and> isUserAdult \<and> isNotSanctioned);
          proofData = userAddress @ '':'' @ DocumentType_string (documentType kycData) @ '':'' @
                        (if valid then ''true'' else ''false'') @ '':'' @ toString rt (proofNow sc);
          proofHash' = hashData rt proofData;
          enclaveSignature' = hashData rt (proofHash' @ '':enclave:signature'')
      in \<lparr>isValid = valid,
          vr_timestamp = resultNow sc,
          proofHash = proofHash',
          enclaveSignature = enclaveSignature',
          attributes =
            \<lparr>attr_isAdult = isUserAdult,
             attr_isNotExpired = isValidDocument,
             attr_isNotSanctioned = isNotSanctioned\<rparr>\<rparr>)"

section \<open>The verification session (the hook \<open>useKYCVerification\<close>)\<close>

datatype VerificationStatus =
  idle | connecting | encrypting | protecting | computing | verifying | submitting
  | completed | failed

record KYCVerificationState =
  status :: VerificationStatus
  currentStep :: nat
  totalSteps :: nat
  protectedData :: "ProtectedData option"
  zkProof :: "ZKProof option"
  verificationResult :: "VerificationResult option"
  transactionHash :: "string option"
  error :: "string option"

definition VERIFICATION_STEPS :: "string list" where
  "VERIFICATION_STEPS =
     [''Connect Wallet'', ''Submit Identity'', ''Encrypt Data'', ''Generate ZK Proof'',
      ''TEE Verification'', ''Submit On-Chain'', ''Complete'']"

text \<open>The state \<open>useState\<close> starts with, which is also the state \<open>reset\<close> sets.\<close>

definition initial_state :: KYCVerificationState where
  "initial_state =
     \<lparr>status = idle,
      currentStep = 0,
      totalSteps = length VERIFICATION_STEPS,
      protectedData = None,
      zkProof = None,
      verificationResult = None,
      transactionHash = None,
      error = None\<rparr>"

text \<open>A value thrown: an \<open>Error\<close> with its message, or anything else.\<close>

datatype thrown = Error string | NonError

text \<open>The asynchronous operations a run awaits, recorded in the order they are called.\<close>

datatype call =
  Call_encryptForTEE | Call_createCommitment | Call_generateFullKYCProof | Call_verifyZKProof
  | Call_provider_request | Call_initializeDataProtector | Call_protectKYCData
  | Call_grantVerificationAccess | Call_executeVerificationTask | Call_simulateVerification
  | Call_generateMockTransactionHash

text \<open>A session: the state of the hook, every state \<open>setState\<close> has produced so far, and
  the calls made so far.\<close>

record session =
  state :: KYCVerificationState
  history :: "KYCVerificationState list"
  calls :: "call list"

definition initial_session :: session where
  "initial_session = \<lparr>state = initial_state, history = [], calls = []\<rparr>"

text \<open>\<open>updateState(updates)\<close> is \<open>setState(prev => ({...prev, ...updates}))\<close>: the partial
  update is a function on the state.\<close>

definition updateState ::
  "(KYCVerificationState \<Rightarrow> KYCVerificationState) \<Rightarrow> session \<Rightarrow> session" where
  "updateState updates s =
     s\<lparr>state := updates (state s), history := history s @ [updates (state s)]\<rparr>"

definition called :: "call list \<Rightarrow> session \<Rightarrow> session" where
  "called cs s = s\<lparr>calls := calls s @ cs\<rparr>"


text \<open>What the collaborators of a run do, given from outside: the encryption and the mock
  transaction hash (both use the platform's random source and may throw), the wallet provider's
  answer to \<open>eth_accounts\<close>, and the results of the four operations of the iExec service
  (\<open>initializeDataProtector\<close> returns null on any failure, \<open>grantVerificationAccess\<close> returns
  false on any failure, the other two throw).\<close>

record DataProtector =
  core_protectData :: bool

record backend =
  encryptForTEE_result :: "thrown + string"
  provider_request_ok :: bool
  initializeDataProtector_result :: "DataProtector option"
  protectKYCData_result :: "thrown + ProtectedData"
  grantVerificationAccess_result :: bool
  executeVerificationTask_result :: "thrown + IExecResult"
  generateMockTransactionHash_result :: "thrown + string"

text \<open>All readings of the clock in one run.\<close>

record run_clock =
  protectedNow :: int
  proofClock :: clock
  simClock :: sim_clock

text \<open>Step 3 of \<open>startVerification\<close> in src/unnamed/part\_003: the confidential execution
  when a wallet provider is present (\<open>hasProvider\<close>), the simulation otherwise. It returns the
  calls it made and either the value thrown or the verification result. \<open>cid\<close> is the
  \<open>chainId\<close> of the hook, \<open>None\<close> when undefined.\<close>

definition tee_verification ::
  "backend \<Rightarrow> runtime \<Rightarrow> sim_clock \<Rightarrow> bool \<Rightarrow> int option \<Rightarrow> KYCData \<Rightarrow> string
     \<Rightarrow> call list \<times> (thrown + VerificationResult)" where
  "tee_verification be rt sc hasProvider cid kycData userAddress =
     (if hasProvider then
        (let requiredChainId = 421614 in
         if cid \<noteq> Some requiredChainId then
           ([], Inl (Error (''Please switch to Arbitrum Sepolia testnet (Chain ID: '' @
                  toString rt requiredChainId @ ''). Current chain: '' @
                  (case cid of None \<Rightarrow> ''undefined'' | Some c \<Rightarrow> toString rt c))))
         else if \<not> provider_request_ok be then
           ([Call_provider_request],
            Inl (Error ''Wallet connection is not working properly. Please reconnect your wallet.''))
         else
           (case initializeDataProtector_result be of
              None \<Rightarrow>
                ([Call_provider_request, Call_initializeDataProtector],
                 Inl (Error ''Failed to initialize iExec DataProtector - check wallet connection and network''))
            | Some dataProtector \<Rightarrow>
                if \<not> core_protectData dataProtector then
                  ([Call_provider_request, Call_initializeDataProtector],
                   Inl (Error ''iExec DataProtector core not properly initialized - API may have changed''))
                else
                  (case protectKYCData_result be of
                     Inl e \<Rightarrow>
                       ([Call_provider_request, Call_initializeDataProtector,
                         Call_protectKYCData], Inl e)
                   | Inr protectedKYCData \<Rightarrow>
                       if \<not> grantVerificationAccess_result be then
                         ([Call_provider_request, Call_initializeDataProtector,
                           Call_protectKYCData, Call_grantVerificationAccess],
                          Inl (Error ''Failed to grant access to verification app''))
                       else
                         (case executeVerificationTask_result be of
                            Inl e \<Rightarrow>
                              ([Call_provider_request, Call_initializeDataProtector,
                                Call_protectKYCData, Call_grantVerificationAccess,
                                Call_executeVerificationTask], Inl e)
                          | Inr iexecResult \<Rightarrow>
                              ([Call_provider_request, Call_initializeDataProtector,
                                Call_protectKYCData, Call_grantVerificationAccess,
                                Call_executeVerificationTask], Inr (result iexecResult))))))
      else ([Call_simulateVerification], Inr (simulateVerification rt sc kycData userAddress)))"

text \<open>Step 3 in src/unnamed/part\_002: always the simulation.\<close>

definition tee_verification_002 ::
  "runtime \<Rightarrow> sim_clock \<Rightarrow> KYCData \<Rightarrow> string \<Rightarrow> call list \<times> (thrown + VerificationResult)" where
  "tee_verification_002 rt sc kycData userAddress =
     ([Call_simulateVerification], Inr (simulateVerification rt sc kycData userAddress))"

text \<open>The body of the \<open>try\<close> block, common to both versions up to step 3 (\<open>tee\<close>). It returns
  the session and the value thrown, if any; an early \<open>return\<close> throws nothing.\<close>

definition startVerification_try ::
  "backend \<Rightarrow> runtime \<Rightarrow> run_clock \<Rightarrow> call list \<times> (thrown + VerificationResult)
     \<Rightarrow> KYCData \<Rightarrow> string \<Rightarrow> session \<Rightarrow> session \<times> thrown option" where
  "startVerification_try be rt rc tee kycData userAddress s0 =
     (let s = updateState (\<lambda>st. st\<lparr>status := encrypting, currentStep := 2\<rparr>) s0;
          s = called [Call_encryptForTEE] s
      in case encryptForTEE_result be of
           Inl e \<Rightarrow> (s, Some e)
         | Inr encryptedData' \<Rightarrow>
             (let s = called [Call_createCommitment] s;
                  dataHash' = createCommitment rt kycData;
                  protectedData' =
                    \<lparr>address = userAddress, dataHash = dataHash',
                     pd_timestamp = protectedNow rc, encryptedData = Some encryptedData'\<rparr>;
                  s = updateState (\<lambda>st. st\<lparr>protectedData := Some protectedData'\<rparr>) s;
                  s = updateState (\<lambda>st. st\<lparr>status := computing, currentStep := 3\<rparr>) s;
                  s = called [Call_generateFullKYCProof] s;
                  zkProof' = generateFullKYCProof rt (proofClock rc) kycData userAddress
                               \<lparr>opt_minimumAge = Some 18, allowedNationalities = None\<rparr>;
                  s = called [Call_verifyZKProof] s;
                  zkVerification = verifyZKProof zkProof' full_kyc
              in if \<not> zk_isValid zkVerification then
                   (updateState (\<lambda>st. st\<lparr>
                        error := Some ''ZK proof verification failed. Please check your information.'',
                        status := failed\<rparr>) s, None)
                 else
                   (let s = updateState (\<lambda>st. st\<lparr>zkProof := Some zkProof'\<rparr>) s;
                        s = updateState (\<lambda>st. st\<lparr>status := verifying, currentStep := 4\<rparr>) s;
                        s = called (fst tee) s
                    in case snd tee of
                         Inl e \<Rightarrow> (s, Some e)
                       | Inr verificationResult' \<Rightarrow>
                           if \<not> isValid verificationResult' then
                             (updateState (\<lambda>st. st\<lparr>
                                  error := Some ''Identity verification failed. Please ensure your documents are valid.'',
                                  status := failed,
                                  verificationResult := Some verificationResult'\<rparr>) s, None)
                           else
                             (let s = updateState
                                    (\<lambda>st. st\<lparr>verificationResult := Some verificationResult'\<rparr>) s;
                                  s = updateState
                                    (\<lambda>st. st\<lparr>status := submitting, currentStep := 5\<rparr>) s;
                                  s = called [Call_generateMockTransactionHash] s
                              in case generateMockTransactionHash_result be of
                                   Inl e \<Rightarrow> (s, Some e)
                                 | Inr txHash \<Rightarrow>
                                     (updateState (\<lambda>st. st\<lparr>
                                          transactionHash := Some txHash,
                                          status := completed,
                                          currentStep := 6\<rparr>) s, None)))))"

text \<open>\<open>startVerification\<close> around the \<open>try\<close> block: the wallet check before it (\<open>!userAddress\<close>
  holds for null and for the empty string) and the \<open>catch\<close> after it.\<close>

definition startVerification_with ::
  "(string \<Rightarrow> call list \<times> (thrown + VerificationResult))
     \<Rightarrow> backend \<Rightarrow> runtime \<Rightarrow> run_clock \<Rightarrow> string option \<Rightarrow> KYCData \<Rightarrow> session \<Rightarrow> session" where
  "startVerification_with tee be rt rc userAddress kycData s0 =
     (case userAddress of
        None \<Rightarrow>
          updateState (\<lambda>st. st\<lparr>error := Some ''Please connect your wallet first'',
                               status := failed\<rparr>) s0
      | Some addr \<Rightarrow>
          if addr = [] then
            updateState (\<lambda>st. st\<lparr>error := Some ''Please connect your wallet first'',
                                 status := failed\<rparr>) s0
          else
            (case startVerification_try be rt rc (tee addr) kycData addr s0 of
               (s, None) \<Rightarrow> s
             | (s, Some err) \<Rightarrow>
                 updateState (\<lambda>st. st\<lparr>
                     error := Some (case err of
                                      Error message \<Rightarrow> message
                                    | NonError \<Rightarrow> ''Verification failed. Please try again.''),
                     status := failed\<rparr>) s))"

text \<open>\<open>startVerification\<close> of src/unnamed/part\_003, with the provider and chain id the hook
  was called with, and of src/unnamed/part\_002.\<close>

definition startVerification ::
  "backend \<Rightarrow> runtime \<Rightarrow> run_clock \<Rightarrow> bool \<Rightarrow> int option \<Rightarrow> string option \<Rightarrow> KYCData
     \<Rightarrow> session \<Rightarrow> session" where
  "startVerification be rt rc hasProvider cid userAddress kycData s0 =
     startVerification_with
       (\<lambda>addr. tee_verification be rt (simClock rc) hasProvider cid kycData addr)
       be rt rc userAddress kycData s0"

definition startVerification_002 ::
  "backend \<Rightarrow> runtime \<Rightarrow> run_clock \<Rightarrow> string option \<Rightarrow> KYCData \<Rightarrow> session \<Rightarrow> session" where
  "startVerification_002 be rt rc userAddress kycData s0 =
     startVerification_with
       (\<lambda>addr. tee_verification_002 rt (simClock rc) kycData addr)
       be rt rc userAddress kycData s0"

section \<open>The confidential worker (the iApp entry point, in src/lib/logger.ts)\<close>

text \<open>The regular expressions of the format validators, each as the search \<open>test\<close> performs:
  a match may start at any position.\<close>

definition is_upper :: "char \<Rightarrow> bool" where
  "is_upper c \<longleftrightarrow> 65 \<le> (of_char c :: nat) \<and> (of_char c :: nat) \<le> 90"

definition is_lower :: "char \<Rightarrow> bool" where
  "is_lower c \<longleftrightarrow> 97 \<le> (of_char c :: nat) \<and> (of_char c :: nat) \<le> 122"

definition is_digit :: "char \<Rightarrow> bool" where
  "is_digit c \<longleftrightarrow> 48 \<le> (of_char c :: nat) \<and> (of_char c :: nat) \<le> 57"

fun any_suffix :: "(string \<Rightarrow> bool) \<Rightarrow> string \<Rightarrow> bool" where
  "any_suffix m [] = m []"
| "any_suffix m (c # cs) = (m (c # cs) \<or> any_suffix m cs)"

text \<open>\<open>[A-Z0-9]{n,}\<close> at the start of a string; an upper bound of the repetition does not
  change whether the search finds a match.\<close>

definition alnum_run :: "nat \<Rightarrow> string \<Rightarrow> bool" where
  "alnum_run n s \<longleftrightarrow> n \<le> length (takeWhile (\<lambda>c. is_upper c \<or> is_digit c) s)"

text \<open>\<open>[A-Z][a-z]+ [A-Z][a-z]+\<close> at the start of a string: the first run of lower-case
  letters ends where the space must be.\<close>

definition name_at :: "string \<Rightarrow> bool" where
  "name_at s =
     (case s of
        [] \<Rightarrow> False
      | u # rest \<Rightarrow>
          is_upper u \<and> takeWhile is_lower rest \<noteq> [] \<and>
          (case dropWhile is_lower rest of
             sp # u' # l # _ \<Rightarrow> sp = CHR '' '' \<and> is_upper u' \<and> is_lower l
           | _ \<Rightarrow> False))"

text \<open>\<open>\d{2}\/\d{2}\/\d{4}\<close> at the start of a string.\<close>

definition date_at :: "string \<Rightarrow> bool" where
  "date_at s =
     (case s of
        a # b # s1 # c # d # s2 # e # f # g # h # _ \<Rightarrow>
          is_digit a \<and> is_digit b \<and> s1 = CHR ''/'' \<and> is_digit c \<and> is_digit d \<and>
          s2 = CHR ''/'' \<and> is_digit e \<and> is_digit f \<and> is_digit g \<and> is_digit h
      | _ \<Rightarrow> False)"

definition validatePassportFormat :: "string \<Rightarrow> bool" where
  "validatePassportFormat data =
     (let hasPassportNumber = any_suffix (alnum_run 6) data;
          hasName = any_suffix name_at data;
          hasDate = any_suffix date_at data
      in hasPassportNumber \<and> hasName \<and> hasDate)"

definition validateIdCardFormat :: "string \<Rightarrow> bool" where
  "validateIdCardFormat data =
     (let hasIdNumber = any_suffix (alnum_run 8) data;
          hasName = any_suffix name_at data
      in hasIdNumber \<and> hasName)"

datatype verification_status = VERIFIED | FAILED | ERROR

record kyc_checks =
  hasData :: bool
  validType :: bool
  validUserId :: bool
  dataIntegrity :: bool
  formatValid :: bool

record verification_details =
  checks :: kyc_checks
  details_documentType :: string
  details_userId :: string
  details_documentHash :: string

record verification =
  verification_status :: verification_status
  details :: verification_details

text \<open>\<open>performKYCVerification\<close>. Its arguments are strings, on which nothing in its \<open>try\<close>
  block throws, so its \<open>catch\<close> (status \<open>ERROR\<close>) is never entered. A check that evaluates to
  the empty string counts as false, as in \<open>check === true\<close>.\<close>

definition performKYCVerification ::
  "string \<Rightarrow> string \<Rightarrow> string \<Rightarrow> string \<Rightarrow> verification" where
  "performKYCVerification documentData documentType' userId documentHash' =
     (let hasData' = (documentData \<noteq> [] \<and> length documentData > 0);
          validType' = List.member
            [''passport'', ''id_card'', ''drivers_license'', ''utility_bill''] documentType';
          validUserId' = (userId \<noteq> [] \<and> length userId > 0);
          dataIntegrity' = (documentHash' \<noteq> [] \<and> length documentHash' = 64);
          formatValid' =
            (if documentType' = ''passport'' then validatePassportFormat documentData
             else if documentType' = ''id_card'' then validateIdCardFormat documentData
             else True);
          checks' = \<lparr>hasData = hasData', validType = validType', validUserId = validUserId',
                     dataIntegrity = dataIntegrity', formatValid = formatValid'\<rparr>;
          allChecksPass = (hasData' \<and> validType' \<and> validUserId' \<and> dataIntegrity' \<and> formatValid')
      in \<lparr>verification_status = (if allChecksPass then VERIFIED else FAILED),
          details = \<lparr>checks = checks', details_documentType = documentType',
                      details_userId = userId, details_documentHash = documentHash'\<rparr>\<rparr>)"

text \<open>What the deserializer yields for one protected dataset.\<close>

record dataset_values =
  value_documentData :: string
  value_documentType :: string
  value_userId :: string

text \<open>An element of \<open>verificationResults\<close>: the result of an item, or the record of its error.\<close>

datatype result_entry =
  Processed string string string verification_status verification_details string
  | Errored int string string

fun verificationStatus :: "result_entry \<Rightarrow> verification_status option" where
  "verificationStatus (Processed userId documentType' docHash st dt ts) = Some st"
| "verificationStatus (Errored documentIndex message ts) = None"

record kycReport =
  verificationId :: string
  totalDocuments :: nat
  verifiedDocuments :: nat
  failedDocuments :: nat
  documentHashes :: "string list"
  verificationResults :: "result_entry list"
  overallStatus :: string
  processedAt :: string

text \<open>What is written under a path: the report, the object of \<open>computed.json\<close> (its keys and
  values, before \<open>JSON.stringify\<close>), or the copy of an input file.\<close>

datatype file_content =
  Report kycReport | Computed "(string \<times> string) list" | Copy_of string

type_synonym files = "(string \<times> file_content) list"

text \<open>The environment of one invocation: the variables the platform sets, what deserializing
  dataset \<open>i\<close> gives (the message of the error when anything in the item's \<open>try\<close> block throws:
  the deserializer and \<open>fs\<close> throw \<open>Error\<close> objects), the file system operations, SHA-256 in
  hexadecimal, and the random and clock values. \<open>IEXEC_BULK_SLICE_SIZE\<close> is given as
  \<open>parseInt\<close> reads it and \<open>IEXEC_INPUT_FILES_NUMBER\<close> as \<open><=\<close> converts it, \<open>None\<close> for NaN.
  The log file is not part of the model.\<close>

record worker_env =
  IEXEC_OUT :: "string option"
  IEXEC_IN :: string
  IEXEC_BULK_SLICE_SIZE :: number
  dataset :: "int \<Rightarrow> string + dataset_values"
  IEXEC_INPUT_FILES_NUMBER :: number
  IEXEC_INPUT_FILE_NAME :: "int \<Rightarrow> string"
  readFile :: "string \<Rightarrow> string + string"
  copyFile :: "string \<Rightarrow> string \<Rightarrow> string option"
  writeFile :: "string \<Rightarrow> string option"
  sha256_hex :: "string \<Rightarrow> string"
  randomUUID :: string
  item_timestamp :: "int \<Rightarrow> string"
  report_timestamp :: string

text \<open>The body of the bulk loop for item \<open>i\<close>: the entry pushed to \<open>verificationResults\<close> and
  the hashes pushed to \<open>documentHashes\<close>, by the \<open>try\<close> block or by its \<open>catch\<close>.\<close>

definition process_item :: "worker_env \<Rightarrow> int \<Rightarrow> result_entry \<times> string list" where
  "process_item env i =
     (case dataset env i of
        Inr vs \<Rightarrow>
          (let documentData = value_documentData vs;
               documentType' = value_documentType vs;
               userId = value_userId vs;
               docHash = sha256_hex env documentData;
               v = performKYCVerification documentData documentType' userId docHash
           in (Processed userId documentType' docHash (verification_status v) (details v)
                 (item_timestamp env i),
               [docHash]))
      | Inl message \<Rightarrow> (Errored i message (item_timestamp env i), []))"

function bulk_loop ::
  "worker_env \<Rightarrow> int \<Rightarrow> int \<Rightarrow> result_entry list \<times> string list
     \<Rightarrow> result_entry list \<times> string list" where
  "bulk_loop env bulkSize i acc =
     (if i \<le> bulkSize then
        bulk_loop env bulkSize (i + 1)
          (fst acc @ [fst (process_item env i)], snd acc @ snd (process_item env i))
      else acc)"
  by pat_completeness auto
termination
  by (relation "measure (\<lambda>(env, bulkSize, i, acc). nat (bulkSize + 1 - i))") auto

declare bulk_loop.simps [simp del]

fun js_le :: "number \<Rightarrow> number \<Rightarrow> bool" where
  "js_le (Some a) (Some b) = (a \<le> b)"
| "js_le _ _ = False"

text \<open>The loop over the input files: it stops at the first \<open>readFile\<close> or \<open>copyFile\<close> that
  throws, with the message of the error.\<close>

function input_loop ::
  "worker_env \<Rightarrow> string \<Rightarrow> int \<Rightarrow> files \<times> string list \<Rightarrow> files \<times> (string + string list)" where
  "input_loop env out i acc =
     (if js_le (Some i) (IEXEC_INPUT_FILES_NUMBER env) then
        (let inputFileName = IEXEC_INPUT_FILE_NAME env i;
             inputFilePath = IEXEC_IN env @ ''/'' @ inputFileName
         in case readFile env inputFilePath of
              Inl message \<Rightarrow> (fst acc, Inl message)
            | Inr fileData \<Rightarrow>
                (let fileHash = sha256_hex env fileData
                 in case copyFile env inputFilePath (out @ ''/processed_'' @ inputFileName) of
                      Some message \<Rightarrow> (fst acc, Inl message)
                    | None \<Rightarrow>
                        input_loop env out (i + 1)
                          (fst acc @ [(out @ ''/processed_'' @ inputFileName, Copy_of inputFilePath)],
                           snd acc @ [fileHash])))
      else (fst acc, Inr (snd acc)))"
  by pat_completeness auto
termination
  by (relation "measure (\<lambda>(env, out, i, acc).
        case IEXEC_INPUT_FILES_NUMBER env of None \<Rightarrow> 0 | Some n \<Rightarrow> nat (n + 1 - i))")
     (auto split: option.splits elim: js_le.elims)

declare input_loop.simps [simp del]

text \<open>The \<open>try\<close> block of \<open>main\<close>: the files it has written and either the message of the
  error that ended it or the object for \<open>computed.json\<close>.\<close>

definition main_try :: "worker_env \<Rightarrow> string \<Rightarrow> files \<times> (string + (string \<times> string) list)" where
  "main_try env out =
     (let bulkSize = IEXEC_BULK_SLICE_SIZE env;
          bulk = (case bulkSize of
                    Some n \<Rightarrow> if n > 0 then bulk_loop env n 1 ([], []) else ([], [])
                  | None \<Rightarrow> ([], []));
          verificationResults' = fst bulk
      in case input_loop env out 1 ([], snd bulk) of
           (fs, Inl message) \<Rightarrow> (fs, Inl message)
         | (fs, Inr documentHashes') \<Rightarrow>
             (let kycReport =
                    \<lparr>verificationId = randomUUID env,
                     totalDocuments = length verificationResults',
                     verifiedDocuments =
                       length (filter (\<lambda>r. verificationStatus r = Some VERIFIED)
                                 verificationResults'),
                     failedDocuments =
                       length (filter (\<lambda>r. verificationStatus r = Some FAILED)
                                 verificationResults'),
                     documentHashes = documentHashes',
                     verificationResults = verificationResults',
                     overallStatus =
                       (if list_all (\<lambda>r. verificationStatus r = Some VERIFIED)
                            verificationResults'
                        then ''ALL_VERIFIED'' else ''PARTIAL_VERIFICATION''),
                     processedAt = report_timestamp env\<rparr>
              in case writeFile env (out @ ''/kyc-verification-result.json'') of
                   Some message \<Rightarrow> (fs, Inl message)
                 | None \<Rightarrow>
                     (fs @ [(out @ ''/kyc-verification-result.json'', Report kycReport)],
                      Inr [(''deterministic-output-path'',
                            out @ ''/kyc-verification-result.json'')])))"

text \<open>How an invocation ends: the promise of \<open>main\<close> resolves, or rejects with a message.\<close>

datatype main_outcome = Resolved | Rejected string

text \<open>\<open>main\<close>: the logger is set up before the \<open>try\<close> statement, and \<open>path.join\<close> throws
  when \<open>IEXEC_OUT\<close> is not set; the \<open>catch\<close> replaces the object for \<open>computed.json\<close>; the
  \<open>finally\<close> writes it.\<close>

definition main :: "worker_env \<Rightarrow> files \<times> main_outcome" where
  "main env =
     (case IEXEC_OUT env of
        None \<Rightarrow>
          ([], Rejected (''The '' @ [CHR 0x22] @ ''path'' @ [CHR 0x22] @
                 '' argument must be of type string. Received undefined''))
      | Some out \<Rightarrow>
          (let tried = main_try env out;
               computedJsonObj =
                 (case snd tried of
                    Inr obj \<Rightarrow> obj
                  | Inl message \<Rightarrow>
                      [(''deterministic-output-path'', out),
                       (''error-message'', ''Oops something went wrong'')])
           in case writeFile env (out @ ''/computed.json'') of
                Some message \<Rightarrow> (fst tried, Rejected message)
              | None \<Rightarrow>
                  (fst tried @ [(out @ ''/computed.json'', Computed computedJsonObj)], Resolved)))"

section \<open>Notions the properties are stated with\<close>

text \<open>The two hexadecimal digits \<open>hashData\<close> writes for one byte.\<close>

definition hex_of_byte :: "8 word \<Rightarrow> string" where
  "hex_of_byte b = padStart 2 (CHR ''0'') (digits 16 (uint b))"

text \<open>The shape \<open>verifyZKProof\<close> accepts, with the digest in hexadecimal.\<close>

definition structurally_valid :: "ZKProof \<Rightarrow> bool" where
  "structurally_valid prf \<longleftrightarrow>
     length (proof_field prf) = 64 \<and> set (proof_field prf) \<subseteq> set hex_digits \<and>
     publicSignals prf \<noteq> []"

text \<open>The age in the specification's words: the difference of the years, less one when the
  month and day of the birthday are still ahead in the current year.\<close>

definition birthday_not_reached :: "Date \<Rightarrow> Date \<Rightarrow> bool" where
  "birthday_not_reached today birthDate \<longleftrightarrow>
     getMonth today < getMonth birthDate \<or>
     (getMonth today = getMonth birthDate \<and> getDate today < getDate birthDate)"

definition calendar_age :: "Date \<Rightarrow> Date \<Rightarrow> int" where
  "calendar_age today birthDate =
     getFullYear today - getFullYear birthDate
       - (if birthday_not_reached today birthDate then 1 else 0)"

text \<open>\<open>later_day d (y, m, dd)\<close>: the calendar day of \<open>d\<close> comes after the day \<open>dd\<close> of month
  \<open>m\<close> of year \<open>y\<close>.\<close>

definition later_day :: "Date \<Rightarrow> int \<times> int \<times> int \<Rightarrow> bool" where
  "later_day d ymd \<longleftrightarrow>
     (case ymd of (y, m, dd) \<Rightarrow>
        y < getFullYear d \<or>
        (y = getFullYear d \<and> (m < getMonth d \<or> (m = getMonth d \<and> dd < getDate d))))"

definition ms_per_day :: int where
  "ms_per_day = 1000 * 60 * 60 * 24"

text \<open>The nationality check as the specification words it: membership in the list when a
  list is provided, true otherwise.\<close>

definition claimed_nationality_valid :: "KYCOptions \<Rightarrow> string \<Rightarrow> bool" where
  "claimed_nationality_valid options n =
     (case allowedNationalities options of None \<Rightarrow> True | Some allowed \<Rightarrow> n \<in> set allowed)"

text \<open>The nationality check with the guard of the source: an empty list restricts nothing.\<close>

definition nationality_allowed :: "KYCOptions \<Rightarrow> string \<Rightarrow> bool" where
  "nationality_allowed options n =
     (case allowedNationalities options of
        None \<Rightarrow> True
      | Some allowed \<Rightarrow> allowed = [] \<or> n \<in> set allowed)"

text \<open>Two different inputs with one digest.\<close>

definition sha256_collision :: "runtime \<Rightarrow> string \<Rightarrow> string \<Rightarrow> bool" where
  "sha256_collision rt a b \<longleftrightarrow> a \<noteq> b \<and> sha256 rt a = sha256 rt b"

text \<open>The string whose digest is the nullifier of a full proof.\<close>

definition nullifier_preimage :: "runtime \<Rightarrow> KYCData \<Rightarrow> string \<Rightarrow> string" where
  "nullifier_preimage rt kycData userAddress =
     DocumentType_string (documentType kycData) @ '':'' @ hashData rt (documentNumber kycData)
       @ '':'' @ userAddress @ '':nullifier''"

text \<open>The conditions of a run of \<open>startVerification\<close>: a wallet is connected, and the proof
  generated in step 2 passes, or fails, the local verification.\<close>

definition wallet_connected :: "string option \<Rightarrow> string \<Rightarrow> bool" where
  "wallet_connected userAddress addr \<longleftrightarrow> userAddress = Some addr \<and> addr \<noteq> []"

definition local_proof :: "runtime \<Rightarrow> run_clock \<Rightarrow> KYCData \<Rightarrow> string \<Rightarrow> ZKProof" where
  "local_proof rt rc kycData addr =
     generateFullKYCProof rt (proofClock rc) kycData addr
       \<lparr>opt_minimumAge = Some 18, allowedNationalities = None\<rparr>"

definition local_proof_valid :: "runtime \<Rightarrow> run_clock \<Rightarrow> KYCData \<Rightarrow> string \<Rightarrow> bool" where
  "local_proof_valid rt rc kycData addr \<longleftrightarrow>
     zk_isValid (verifyZKProof (local_proof rt rc kycData addr) full_kyc)"

text \<open>The calls of the remote confidential execution and of its simulation.\<close>

definition remote_calls :: "call set" where
  "remote_calls =
     {Call_provider_request, Call_initializeDataProtector, Call_protectKYCData,
      Call_grantVerificationAccess, Call_executeVerificationTask, Call_simulateVerification}"

text \<open>The states a run has added to the history of a session.\<close>

definition new_states :: "session \<Rightarrow> session \<Rightarrow> KYCVerificationState list" where
  "new_states s0 s' = drop (length (history s0)) (history s')"

text \<open>An input file that can be read and copied, and an invocation all of whose input files
  can: the two places, with the write of the report, where the \<open>try\<close> block of the worker
  can throw.\<close>

definition input_file_ok :: "worker_env \<Rightarrow> string \<Rightarrow> int \<Rightarrow> bool" where
  "input_file_ok env out i =
     (case readFile env (IEXEC_IN env @ ''/'' @ IEXEC_INPUT_FILE_NAME env i) of
        Inl message \<Rightarrow> False
      | Inr fileData \<Rightarrow>
          copyFile env (IEXEC_IN env @ ''/'' @ IEXEC_INPUT_FILE_NAME env i)
            (out @ ''/processed_'' @ IEXEC_INPUT_FILE_NAME env i) = None)"

definition input_files_readable :: "worker_env \<Rightarrow> string \<Rightarrow> bool" where
  "input_files_readable env out =
     (case IEXEC_INPUT_FILES_NUMBER env of
        None \<Rightarrow> True
      | Some n \<Rightarrow> list_all (input_file_ok env out) [1..n])"

text \<open>The entries the bulk loop makes for a bulk size: none when the size is NaN or not
  positive.\<close>

definition bulk_entries :: "worker_env \<Rightarrow> result_entry list" where
  "bulk_entries env =
     (case IEXEC_BULK_SLICE_SIZE env of
        None \<Rightarrow> []
      | Some n \<Rightarrow> map (\<lambda>i. fst (process_item env i)) [1..n])"

section \<open>Concrete inputs for the examples\<close>

text \<open>A table for the date strings of the examples (local time is UTC), a 32-byte checksum
  in place of SHA-256, and a serializer for flat objects. No number of the examples reaches
  1e21, and the exponent form is left as the decimal digits.\<close>

definition example_dates :: "(string \<times> Date) list" where
  "example_dates =
     [(''2026-11-02'', \<lparr>getFullYear = 2026, getMonth = 10, getDate = 2, getTime = 1793577600000\<rparr>),
      (''2008-11-02'', \<lparr>getFullYear = 2008, getMonth = 10, getDate = 2, getTime = 1225584000000\<rparr>),
      (''2008-11-03'', \<lparr>getFullYear = 2008, getMonth = 10, getDate = 3, getTime = 1225670400000\<rparr>),
      (''2026-12-03'', \<lparr>getFullYear = 2026, getMonth = 11, getDate = 3, getTime = 1796256000000\<rparr>),
      (''2026-12-01'', \<lparr>getFullYear = 2026, getMonth = 11, getDate = 1, getTime = 1796083200000\<rparr>),
      (''2026-11-01'', \<lparr>getFullYear = 2026, getMonth = 10, getDate = 1, getTime = 1793491200000\<rparr>),
      (''2000-01-01'', \<lparr>getFullYear = 2000, getMonth = 0, getDate = 1, getTime = 946684800000\<rparr>)]"

definition example_sha256 :: "string \<Rightarrow> 8 word list" where
  "example_sha256 s =
     (let h = fold (\<lambda>c h. (h * 31 + of_char c) mod 65521) s 7
      in map (\<lambda>k. of_int ((h + k) * (2 * k + 1))) [0..31])"

fun example_value :: "jvalue \<Rightarrow> string" where
  "example_value (JNum None) = ''null''"
| "example_value (JNum (Some i)) = decimal i"
| "example_value (JBool b) = (if b then ''true'' else ''false'')"
| "example_value (JStr s) = [CHR 0x22] @ s @ [CHR 0x22]"

fun example_members :: "jobject \<Rightarrow> string" where
  "example_members [] = []"
| "example_members [(k, v)] = [CHR 0x22] @ k @ [CHR 0x22] @ '':'' @ example_value v"
| "example_members ((k, v) # kvs) =
     [CHR 0x22] @ k @ [CHR 0x22] @ '':'' @ example_value v @ '','' @ example_members kvs"

definition example_runtime :: runtime where
  "example_runtime =
     \<lparr>Date_parse = map_of example_dates,
      sha256 = example_sha256,
      JSON_stringify = (\<lambda>obj. ''{'' @ example_members obj @ ''}''),
      Number_exponential = decimal\<rparr>"

definition example_today :: Date where
  "example_today =
     \<lparr>getFullYear = 2026, getMonth = 10, getDate = 2, getTime = 1793577600000\<rparr>"

definition example_clock :: clock where
  "example_clock = \<lparr>ageToday = example_today, docToday = example_today, now = 1793577600000\<rparr>"

definition example_kyc :: KYCData where
  "example_kyc =
     \<lparr>documentType = passport, documentNumber = ''P1234567'', fullName = ''Ada Byron'',
      dateOfBirth = ''2000-01-01'', nationality = ''Canada'', expiryDate = ''2026-12-03'',
      documentHash = None\<rparr>"

definition example_options :: KYCOptions where
  "example_options =
     \<lparr>opt_minimumAge = None, allowedNationalities = Some [''Canada'', ''USA'']\<rparr>"

text \<open>Collaborators that all succeed, and the clock of the examples.\<close>

definition example_result :: VerificationResult where
  "example_result =
     \<lparr>isValid = True, vr_timestamp = 1793577605000, proofHash = ''ab'',
      enclaveSignature = ''cd'',
      attributes = \<lparr>attr_isAdult = True, attr_isNotExpired = True,
                    attr_isNotSanctioned = True\<rparr>\<rparr>"

definition example_backend :: backend where
  "example_backend =
     \<lparr>encryptForTEE_result = Inr ''ciphertext'',
      provider_request_ok = True,
      initializeDataProtector_result = Some \<lparr>core_protectData = True\<rparr>,
      protectKYCData_result =
        Inr \<lparr>address = ''0xprotected'', dataHash = ''00'', pd_timestamp = 1793577601000,
             encryptedData = None\<rparr>,
      grantVerificationAccess_result = True,
      executeVerificationTask_result = Inr \<lparr>taskId = ''0xprotected'', result = example_result\<rparr>,
      generateMockTransactionHash_result = Inr ''0xfeed''\<rparr>"

definition example_run_clock :: run_clock where
  "example_run_clock =
     \<lparr>protectedNow = 1793577600000,
      proofClock = example_clock,
      simClock = \<lparr>validityToday = example_today, adultToday = example_today,
                  proofNow = 1793577600000, resultNow = 1793577600000\<rparr>\<rparr>"

text \<open>An invocation on three datasets, the second of which cannot be deserialized, and no
  input file; and the same invocation with one input file that cannot be read.\<close>

definition example_worker_env :: worker_env where
  "example_worker_env =
     \<lparr>IEXEC_OUT = Some ''/iexec_out'',
      IEXEC_IN = ''/iexec_in'',
      IEXEC_BULK_SLICE_SIZE = Some 3,
      dataset = (\<lambda>i. if i = 2 then Inl ''Failed to load protected data''
                     else Inr \<lparr>value_documentData = ''P1234567 Ada Byron 01/01/2000'',
                               value_documentType = ''passport'',
                               value_userId = ''0xabc''\<rparr>),
      IEXEC_INPUT_FILES_NUMBER = Some 0,
      IEXEC_INPUT_FILE_NAME = (\<lambda>i. ''extra.pdf''),
      readFile = (\<lambda>p. Inl ''ENOENT: no such file or directory''),
      copyFile = (\<lambda>p q. None),
      writeFile = (\<lambda>p. None),
      sha256_hex = hashData example_runtime,
      randomUUID = ''00000000-0000-4000-8000-000000000000'',
      item_timestamp = (\<lambda>i. ''2026-11-02T00:00:00.000Z''),
      report_timestamp = ''2026-11-02T00:00:01.000Z''\<rparr>"

definition example_failing_env :: worker_env where
  "example_failing_env = example_worker_env\<lparr>IEXEC_INPUT_FILES_NUMBER := Some 1\<rparr>"

text \<open>The same runtime in a time zone five hours west of UTC. A date-only string is read as
  midnight UTC, which is 19:00 of the day before in local time: \<open>new Date("2008-11-03")\<close> is the
  instant 2008-11-03T00:00Z, and its local calendar fields are those of 2 November 2008. Now
  is noon of 2 November 2026 in local time, 17:00Z.\<close>

definition example_dates_west :: "(string \<times> Date) list" where
  "example_dates_west =
     [(''2008-11-02'', \<lparr>getFullYear = 2008, getMonth = 10, getDate = 1, getTime = 1225584000000\<rparr>),
      (''2008-11-03'', \<lparr>getFullYear = 2008, getMonth = 10, getDate = 2, getTime = 1225670400000\<rparr>)]"

definition example_runtime_west :: runtime where
  "example_runtime_west = example_runtime\<lparr>Date_parse := map_of example_dates_west\<rparr>"

definition example_today_west :: Date where
  "example_today_west =
     \<lparr>getFullYear = 2026, getMonth = 10, getDate = 2, getTime = 1793638800000\<rparr>"


section \<open>Verified properties\<close>

subsection \<open>Digests\<close>

lemma digit_char_inj:
  assumes "0 \<le> i" "i < 16" "0 \<le> j" "j < 16" "digit_char i = digit_char j"
  shows "i = j"
proof -
  have d: "distinct hex_digits" by (simp add: hex_digits_def)
  have l: "length hex_digits = 16" by (simp add: hex_digits_def)
  from assms have "nat i < 16" "nat j < 16" by simp_all
  with assms(5) d l have "nat i = nat j" unfolding digit_char_def
    by (metis nth_eq_iff_index_eq)
  with assms show "i = j" by simp
qed

lemma hex_byte_eq:
  assumes "0 \<le> n" "n < 256"
  shows "padStart 2 (CHR ''0'') (digits 16 n) = [digit_char (n div 16), digit_char (n mod 16)]"
proof (cases "n < 16")
  case True
  with assms show ?thesis
    by (simp add: digits.simps [of 16 n] padStart_def digit_char_def hex_digits_def)
next
  case False
  with assms have "n div 16 < 16" by simp
  with False show ?thesis
    by (simp add: digits.simps [of 16 n] digits.simps [of 16 "n div 16"] padStart_def)
qed

lemma uint_byte_less: "uint (b :: 8 word) < 256"
  using uint_bounded [of b] by simp

lemma hex_of_byte_eq: "hex_of_byte b = [digit_char (uint b div 16), digit_char (uint b mod 16)]"
  unfolding hex_of_byte_def by (rule hex_byte_eq) (simp_all add: uint_byte_less)

lemma hex_of_byte_inj:
  assumes h: "hex_of_byte a = hex_of_byte b"
  shows "a = b"
proof -
  have la: "uint a div 16 < 16" and lb: "uint b div 16 < 16"
    using uint_byte_less [of a] uint_byte_less [of b] by simp_all
  have pa: "0 \<le> uint a div 16" and pb: "0 \<le> uint b div 16"
    by (simp_all add: pos_imp_zdiv_nonneg_iff)
  from h have "[digit_char (uint a div 16), digit_char (uint a mod 16)]
      = [digit_char (uint b div 16), digit_char (uint b mod 16)]"
    by (simp only: hex_of_byte_eq)
  then have hi: "digit_char (uint a div 16) = digit_char (uint b div 16)"
    and lo: "digit_char (uint a mod 16) = digit_char (uint b mod 16)"
    by (simp_all only: list.inject)
  have "uint a div 16 = uint b div 16"
    by (rule digit_char_inj [OF pa la pb lb hi])
  moreover have "uint a mod 16 = uint b mod 16"
    by (rule digit_char_inj [OF _ _ _ _ lo]) simp_all
  ultimately have "uint a = uint b"
    by (metis div_mult_mod_eq)
  then show "a = b" by (simp add: word_uint_eq_iff)
qed

lemma hashData_hex: "hashData rt s = concat (map hex_of_byte (sha256 rt s))"
  unfolding hashData_def hex_of_byte_def [abs_def] Let_def ..

lemma length_concat_hex: "length (concat (map hex_of_byte bs)) = 2 * length bs"
  by (induction bs) (simp_all add: hex_of_byte_eq)

lemma concat_hex_inj:
  "concat (map hex_of_byte xs) = concat (map hex_of_byte ys) \<Longrightarrow> xs = ys"
proof (induction xs arbitrary: ys)
  case Nil
  then show ?case by (cases ys) (simp_all add: hex_of_byte_eq)
next
  case (Cons x xs)
  then show ?case
  proof (cases ys)
    case Nil
    with Cons.prems show ?thesis by (simp add: hex_of_byte_eq)
  next
    case (Cons y ys')
    with Cons.prems have hd: "hex_of_byte x = hex_of_byte y"
      by (simp add: hex_of_byte_eq)
    from Cons Cons.prems have "hex_of_byte x @ concat (map hex_of_byte xs)
        = hex_of_byte y @ concat (map hex_of_byte ys')"
      by simp
    with hd have tl: "concat (map hex_of_byte xs) = concat (map hex_of_byte ys')"
      by simp
    from hd have "x = y" by (rule hex_of_byte_inj)
    with Cons.IH [OF tl] Cons show ?thesis by simp
  qed
qed

lemma hashData_eq_iff: "hashData rt s = hashData rt t \<longleftrightarrow> sha256 rt s = sha256 rt t"
  by (auto simp: hashData_hex dest: concat_hex_inj)

lemma length_hashData: "length (hashData rt s) = 2 * length (sha256 rt s)"
  by (simp add: hashData_hex length_concat_hex)

lemma digit_char_hex: "0 \<le> n \<Longrightarrow> n < 16 \<Longrightarrow> digit_char n \<in> set hex_digits"
  unfolding digit_char_def by (rule nth_mem) (simp add: hex_digits_def)

lemma set_hex_of_byte: "set (hex_of_byte b) \<subseteq> set hex_digits"
proof -
  have "uint b div 16 < 16" "uint b mod 16 < 16" "0 \<le> uint b div 16"
    using uint_byte_less [of b] by (simp_all add: pos_imp_zdiv_nonneg_iff)
  then show ?thesis
    by (simp add: hex_of_byte_eq digit_char_hex)
qed

lemma set_hashData: "set (hashData rt s) \<subseteq> set hex_digits"
  unfolding hashData_hex using set_hex_of_byte by auto

subsection \<open>Public signals of the three generators\<close>

lemma bool_signal_one [simp]: "bool_signal b = ''1'' \<longleftrightarrow> b"
  by (simp add: bool_signal_def)

lemma bool_signal_zero [simp]: "bool_signal b = ''0'' \<longleftrightarrow> \<not> b"
  by (simp add: bool_signal_def)

lemma member_set: "List.member xs x \<longleftrightarrow> x \<in> set xs"
  by (induction xs) auto

lemma age_signals:
  "publicSignals (generateAgeVerificationProof rt today dob minimumAge userAddress) =
     [bool_signal
        (case Date_parse rt dob of
           None \<Rightarrow> False
         | Some birthDate \<Rightarrow> minimumAge \<le> calendar_age today birthDate),
      toString rt minimumAge, toString rt (getFullYear today)]"
  by (cases "Date_parse rt dob")
     (auto simp: generateAgeVerificationProof_def Let_def calendar_age_def
        birthday_not_reached_def)

lemma doc_signals:
  "publicSignals (generateDocumentValidityProof rt today expiryDate' documentType' userAddress) =
     (case Date_parse rt expiryDate' of
        None \<Rightarrow> [''0'', ''0'']
      | Some expiry \<Rightarrow>
          [bool_signal (getTime today < getTime expiry),
           bool_signal (30 < (getTime expiry - getTime today) div ms_per_day)])"
  by (cases "Date_parse rt expiryDate'")
     (simp_all add: generateDocumentValidityProof_def Let_def ms_per_day_def bool_signal_def)

text \<open>A date string that does not parse gives "0": every comparison with NaN is false.\<close>

lemma age_signal_invalid_date:
  "Date_parse rt dob = None \<Longrightarrow>
     publicSignals (generateAgeVerificationProof rt today dob minimumAge userAddress) ! 0 = ''0''"
  by (simp add: age_signals)

lemma doc_signals_invalid_date:
  "Date_parse rt expiryDate' = None \<Longrightarrow>
     publicSignals (generateDocumentValidityProof rt today expiryDate' documentType' userAddress)
       = [''0'', ''0'']"
  by (simp add: doc_signals)

lemma full_signals:
  "publicSignals (generateFullKYCProof rt clk kycData userAddress options) =
     (let minimumAge = (case opt_minimumAge options of None \<Rightarrow> 18 | Some m \<Rightarrow> m);
          isAgeValid = (publicSignals (generateAgeVerificationProof rt (ageToday clk)
                          (dateOfBirth kycData) minimumAge userAddress) ! 0 = ''1'');
          isDocValid = (publicSignals (generateDocumentValidityProof rt (docToday clk)
                          (expiryDate kycData) (DocumentType_string (documentType kycData))
                          userAddress) ! 0 = ''1'');
          isNationalityValid = nationality_allowed options (nationality kycData)
      in [bool_signal (isAgeValid \<and> isDocValid \<and> isNationalityValid),
          bool_signal isAgeValid, bool_signal isDocValid, bool_signal isNationalityValid,
          toString rt minimumAge])"
  by (cases "allowedNationalities options")
     (simp_all add: generateFullKYCProof_def Let_def nationality_allowed_def member_set)

lemma full_nullifier:
  "nullifierHash (generateFullKYCProof rt clk kycData userAddress options) =
     hashData rt (nullifier_preimage rt kycData userAddress)"
  by (simp add: generateFullKYCProof_def Let_def generateNullifierHash_def
      nullifier_preimage_def)

subsection \<open>The verifier\<close>

text \<open>C5: \<open>verifyZKProof\<close> is a total function with no failing branch; on an artifact whose
  digest is empty or not 64 characters wide, or whose list of public signals is empty, it
  returns \<open>isValid = false\<close>, the artifact's nullifier and no public outputs; on every other
  artifact it returns \<open>isValid\<close> true exactly when the first public signal is the string
  "1", with the artifact's nullifier and its public signals, whatever the circuit type.\<close>

theorem verifyZKProof_spec:
  "(proof_field prf = [] \<or> length (proof_field prf) \<noteq> 64 \<or> publicSignals prf = []
      \<longrightarrow> verifyZKProof prf circuitType =
            \<lparr>zk_isValid = False, zk_nullifierHash = nullifierHash prf, publicOutputs = []\<rparr>)
   \<and> (\<not> (proof_field prf = [] \<or> length (proof_field prf) \<noteq> 64 \<or> publicSignals prf = [])
      \<longrightarrow> verifyZKProof prf circuitType =
            \<lparr>zk_isValid = (publicSignals prf ! 0 = ''1''),
             zk_nullifierHash = nullifierHash prf,
             publicOutputs = publicSignals prf\<rparr>)"
  by (auto simp: verifyZKProof_def Let_def)

theorem verifyZKProof_spec_witness:
  "verifyZKProof \<lparr>proof_field = [], publicSignals = [''1''], nullifierHash = ''n''\<rparr> full_kyc
     = \<lparr>zk_isValid = False, zk_nullifierHash = ''n'', publicOutputs = []\<rparr>
   \<and> verifyZKProof \<lparr>proof_field = replicate 64 (CHR ''a''), publicSignals = [''1'', ''0''],
          nullifierHash = ''n''\<rparr> age_verification
     = \<lparr>zk_isValid = True, zk_nullifierHash = ''n'', publicOutputs = [''1'', ''0'']\<rparr>"
  using
    verifyZKProof_spec
      [of "\<lparr>proof_field = [], publicSignals = [''1''], nullifierHash = ''n''\<rparr>" full_kyc]
    verifyZKProof_spec
      [of "\<lparr>proof_field = replicate 64 (CHR ''a''), publicSignals = [''1'', ''0''],
            nullifierHash = ''n''\<rparr>" age_verification]
  by simp

subsection \<open>The full proof\<close>

text \<open>C1 (as amended): the public signals of \<open>generateFullKYCProof\<close> are, in this order,
  isFullyValid, isAgeValid, isDocValid, isNationalityValid and the minimum age (18 when the
  option is absent), where isAgeValid and isDocValid are the first signals of the age proof
  and of the document proof, isNationalityValid is membership of the record's nationality in
  \<open>allowedNationalities\<close> when that list is provided and not empty and true otherwise, and
  isFullyValid is "1" exactly when the other three are "1".\<close>

theorem full_kyc_public_signals:
  "(let minimumAge = (case opt_minimumAge options of None \<Rightarrow> 18 | Some m \<Rightarrow> m);
        ageProof = generateAgeVerificationProof rt (ageToday clk) (dateOfBirth kycData)
                     minimumAge userAddress;
        docProof = generateDocumentValidityProof rt (docToday clk) (expiryDate kycData)
                     (DocumentType_string (documentType kycData)) userAddress;
        isAgeValid = (publicSignals ageProof ! 0 = ''1'');
        isDocValid = (publicSignals docProof ! 0 = ''1'');
        isNationalityValid = nationality_allowed options (nationality kycData);
        signals = publicSignals (generateFullKYCProof rt clk kycData userAddress options)
    in signals =
         [bool_signal (isAgeValid \<and> isDocValid \<and> isNationalityValid),
          bool_signal isAgeValid, bool_signal isDocValid, bool_signal isNationalityValid,
          toString rt minimumAge]
       \<and> (signals ! 0 = ''1'' \<longleftrightarrow>
            signals ! 1 = ''1'' \<and> signals ! 2 = ''1'' \<and> signals ! 3 = ''1''))"
  by (simp add: full_signals Let_def)

theorem full_kyc_public_signals_witness:
  "publicSignals (generateFullKYCProof example_runtime example_clock example_kyc ''0xabc''
      example_options) = [''1'', ''1'', ''1'', ''1'', ''18'']
   \<and> publicSignals (generateFullKYCProof example_runtime example_clock
        (example_kyc\<lparr>nationality := ''Germany''\<rparr>) ''0xabc'' example_options)
       = [''0'', ''1'', ''1'', ''0'', ''18'']"
  using
    full_kyc_public_signals
      [of example_options example_runtime example_clock example_kyc "''0xabc''"]
    full_kyc_public_signals
      [of example_options example_runtime example_clock
        "example_kyc\<lparr>nationality := ''Germany''\<rparr>" "''0xabc''"]
  by (simp add: Let_def age_signals doc_signals example_options_def example_runtime_def
      example_clock_def example_kyc_def example_dates_def example_today_def
      nationality_allowed_def calendar_age_def birthday_not_reached_def ms_per_day_def
      toString_def decimal_def digits.simps [of 10 18] digits.simps [of 10 1] digit_char_def hex_digits_def)

text \<open>C1 as the specification words it fails on an empty list: the list is provided,
  nothing is a member of it, and the nationality signal is "1".\<close>

theorem full_kyc_empty_allow_list_counterexample:
  "publicSignals (generateFullKYCProof example_runtime example_clock example_kyc ''0xabc''
      \<lparr>opt_minimumAge = None, allowedNationalities = Some []\<rparr>) ! 3
   \<noteq> bool_signal (claimed_nationality_valid
        \<lparr>opt_minimumAge = None, allowedNationalities = Some []\<rparr> (nationality example_kyc))"
  by (simp add: full_signals Let_def nationality_allowed_def claimed_nationality_valid_def
      bool_signal_def)

subsection \<open>The nullifier of the full proof\<close>

lemma preimage_subject_inj:
  "nullifier_preimage rt kycData ua = nullifier_preimage rt kycData ub \<longleftrightarrow> ua = ub"
  by (simp add: nullifier_preimage_def)

lemma preimage_number_inj:
  assumes "documentType ka = documentType kb"
  shows "nullifier_preimage rt ka u = nullifier_preimage rt kb u
     \<longleftrightarrow> sha256 rt (documentNumber ka) = sha256 rt (documentNumber kb)"
  using assms by (simp add: nullifier_preimage_def hashData_eq_iff)

text \<open>C2: the nullifier of a full proof is \<open>generateNullifierHash\<close> of the string
  documentType + ":" + hashData(documentNumber) with the subject. Two generations for the same
  document type, document number and subject give the same nullifier, whatever the clocks, the
  other fields of the record and the options. Another subject, or another document number,
  gives another nullifier unless SHA-256 collides: on the two document numbers, or on the two
  strings the nullifiers are the digests of.\<close>

theorem full_kyc_nullifier:
  "nullifierHash (generateFullKYCProof rt clk kycData userAddress options)
     = generateNullifierHash rt
         (DocumentType_string (documentType kycData) @ '':'' @
            hashData rt (documentNumber kycData)) userAddress
   \<and> (documentType ka = documentType kb \<and> documentNumber ka = documentNumber kb
      \<longrightarrow> nullifierHash (generateFullKYCProof rt clka ka userAddress optionsa)
            = nullifierHash (generateFullKYCProof rt clkb kb userAddress optionsb))
   \<and> (ua \<noteq> ub \<and>
       \<not> sha256_collision rt (nullifier_preimage rt kycData ua) (nullifier_preimage rt kycData ub)
      \<longrightarrow> nullifierHash (generateFullKYCProof rt clka kycData ua optionsa)
            \<noteq> nullifierHash (generateFullKYCProof rt clkb kycData ub optionsb))
   \<and> (documentType ka = documentType kb \<and> documentNumber ka \<noteq> documentNumber kb \<and>
       \<not> sha256_collision rt (documentNumber ka) (documentNumber kb) \<and>
       \<not> sha256_collision rt (nullifier_preimage rt ka userAddress)
            (nullifier_preimage rt kb userAddress)
      \<longrightarrow> nullifierHash (generateFullKYCProof rt clka ka userAddress optionsa)
            \<noteq> nullifierHash (generateFullKYCProof rt clkb kb userAddress optionsb))"
proof (intro conjI impI)
  show "nullifierHash (generateFullKYCProof rt clk kycData userAddress options)
     = generateNullifierHash rt
         (DocumentType_string (documentType kycData) @ '':'' @
            hashData rt (documentNumber kycData)) userAddress"
    by (simp add: generateFullKYCProof_def Let_def)
next
  assume "documentType ka = documentType kb \<and> documentNumber ka = documentNumber kb"
  then show "nullifierHash (generateFullKYCProof rt clka ka userAddress optionsa)
            = nullifierHash (generateFullKYCProof rt clkb kb userAddress optionsb)"
    by (simp add: full_nullifier nullifier_preimage_def)
next
  assume a: "ua \<noteq> ub \<and>
       \<not> sha256_collision rt (nullifier_preimage rt kycData ua) (nullifier_preimage rt kycData ub)"
  then have "nullifier_preimage rt kycData ua \<noteq> nullifier_preimage rt kycData ub"
    by (simp add: preimage_subject_inj)
  with a have "sha256 rt (nullifier_preimage rt kycData ua)
      \<noteq> sha256 rt (nullifier_preimage rt kycData ub)"
    by (auto simp: sha256_collision_def)
  then show "nullifierHash (generateFullKYCProof rt clka kycData ua optionsa)
            \<noteq> nullifierHash (generateFullKYCProof rt clkb kycData ub optionsb)"
    by (simp add: full_nullifier hashData_eq_iff)
next
  assume a: "documentType ka = documentType kb \<and> documentNumber ka \<noteq> documentNumber kb \<and>
       \<not> sha256_collision rt (documentNumber ka) (documentNumber kb) \<and>
       \<not> sha256_collision rt (nullifier_preimage rt ka userAddress)
            (nullifier_preimage rt kb userAddress)"
  then have "sha256 rt (documentNumber ka) \<noteq> sha256 rt (documentNumber kb)"
    by (auto simp: sha256_collision_def)
  with a have "nullifier_preimage rt ka userAddress \<noteq> nullifier_preimage rt kb userAddress"
    by (simp add: preimage_number_inj)
  with a have "sha256 rt (nullifier_preimage rt ka userAddress)
      \<noteq> sha256 rt (nullifier_preimage rt kb userAddress)"
    by (auto simp: sha256_collision_def)
  then show "nullifierHash (generateFullKYCProof rt clka ka userAddress optionsa)
            \<noteq> nullifierHash (generateFullKYCProof rt clkb kb userAddress optionsb)"
    by (simp add: full_nullifier hashData_eq_iff)
qed

theorem full_kyc_nullifier_witness:
  "nullifierHash (generateFullKYCProof example_runtime example_clock example_kyc ''0xabc''
      example_options)
   = nullifierHash (generateFullKYCProof example_runtime
      (example_clock\<lparr>now := 1793577660000\<rparr>)
      (example_kyc\<lparr>fullName := ''A. Byron'', nationality := ''USA''\<rparr>) ''0xabc''
      \<lparr>opt_minimumAge = Some 21, allowedNationalities = None\<rparr>)
   \<and> nullifierHash (generateFullKYCProof example_runtime example_clock example_kyc ''0xabc''
      example_options)
     \<noteq> nullifierHash (generateFullKYCProof example_runtime example_clock example_kyc ''0xabd''
      example_options)
   \<and> nullifierHash (generateFullKYCProof example_runtime example_clock example_kyc ''0xabc''
      example_options)
     \<noteq> nullifierHash (generateFullKYCProof example_runtime example_clock
      (example_kyc\<lparr>documentNumber := ''P7654321''\<rparr>) ''0xabc'' example_options)"
proof -
  have subject: "\<not> sha256_collision example_runtime
      (nullifier_preimage example_runtime example_kyc ''0xabc'')
      (nullifier_preimage example_runtime example_kyc ''0xabd'')"
    by code_simp
  have number: "\<not> sha256_collision example_runtime
      (documentNumber example_kyc) (documentNumber (example_kyc\<lparr>documentNumber := ''P7654321''\<rparr>))"
    by code_simp
  have preimage: "\<not> sha256_collision example_runtime
      (nullifier_preimage example_runtime example_kyc ''0xabc'')
      (nullifier_preimage example_runtime (example_kyc\<lparr>documentNumber := ''P7654321''\<rparr>)
         ''0xabc'')"
    by code_simp
  have same: "documentType example_kyc
        = documentType (example_kyc\<lparr>fullName := ''A. Byron'', nationality := ''USA''\<rparr>)
      \<and> documentNumber example_kyc
        = documentNumber (example_kyc\<lparr>fullName := ''A. Byron'', nationality := ''USA''\<rparr>)"
    by simp
  have other: "documentType example_kyc
        = documentType (example_kyc\<lparr>documentNumber := ''P7654321''\<rparr>)
      \<and> documentNumber example_kyc
        \<noteq> documentNumber (example_kyc\<lparr>documentNumber := ''P7654321''\<rparr>)"
    by (simp add: example_kyc_def)
  have diff: "''0xabc'' \<noteq> ''0xabd''"
    by simp
  show ?thesis
    using subject number preimage same other diff
      full_kyc_nullifier
        [where rt = example_runtime and kycData = example_kyc
           and ka = example_kyc
           and kb = "example_kyc\<lparr>fullName := ''A. Byron'', nationality := ''USA''\<rparr>"
           and userAddress = "''0xabc''" and ua = "''0xabc''" and ub = "''0xabd''"
           and clka = example_clock and clkb = "example_clock\<lparr>now := 1793577660000\<rparr>"
           and optionsa = example_options
           and optionsb = "\<lparr>opt_minimumAge = Some 21, allowedNationalities = None\<rparr>"]
      full_kyc_nullifier
        [where rt = example_runtime and kycData = example_kyc
           and ka = example_kyc
           and kb = "example_kyc\<lparr>documentNumber := ''P7654321''\<rparr>"
           and userAddress = "''0xabc''" and ua = "''0xabc''" and ub = "''0xabd''"
           and clka = example_clock and clkb = example_clock
           and optionsa = example_options and optionsb = example_options]
    by blast
qed

subsection \<open>The age proof\<close>

text \<open>What the code computes: for a date of birth that parses, the first public signal of
  \<open>generateAgeVerificationProof\<close> is "1" when the calendar age (the difference of the years,
  less one exactly when the month and day of the birthday are still ahead in the current year)
  is at least \<open>minimumAge\<close>, and "0" otherwise. With \<open>minimumAge\<close> 18, a date of birth with
  today's month and day, 18 years back, gives "1"; a date of birth on any later calendar day,
  the next day among them, gives "0". The calendar fields are the local ones of the
  \<open>Date\<close> objects, and the \<open>Date\<close> of a date-only string is midnight UTC of that day.\<close>

lemma age_signal_on_local_fields:
  assumes "Date_parse rt dob = Some birthDate"
  shows
    "(publicSignals (generateAgeVerificationProof rt today dob minimumAge userAddress) ! 0
        = (if minimumAge \<le> calendar_age today birthDate then ''1'' else ''0''))
     \<and> (getFullYear birthDate = getFullYear today - 18 \<and>
          getMonth birthDate = getMonth today \<and> getDate birthDate = getDate today
        \<longrightarrow> publicSignals (generateAgeVerificationProof rt today dob 18 userAddress) ! 0
              = ''1'')
     \<and> (later_day birthDate (getFullYear today - 18, getMonth today, getDate today)
        \<longrightarrow> publicSignals (generateAgeVerificationProof rt today dob 18 userAddress) ! 0
              = ''0'')"
proof (intro conjI impI)
  show "publicSignals (generateAgeVerificationProof rt today dob minimumAge userAddress) ! 0
        = (if minimumAge \<le> calendar_age today birthDate then ''1'' else ''0'')"
    using assms by (simp add: age_signals bool_signal_def)
next
  assume "getFullYear birthDate = getFullYear today - 18 \<and>
          getMonth birthDate = getMonth today \<and> getDate birthDate = getDate today"
  then have "calendar_age today birthDate = 18"
    by (simp add: calendar_age_def birthday_not_reached_def)
  with assms show "publicSignals (generateAgeVerificationProof rt today dob 18 userAddress) ! 0
      = ''1''"
    by (simp add: age_signals)
next
  assume "later_day birthDate (getFullYear today - 18, getMonth today, getDate today)"
  then have "calendar_age today birthDate < 18"
    by (auto simp: later_day_def calendar_age_def birthday_not_reached_def)
  with assms show "publicSignals (generateAgeVerificationProof rt today dob 18 userAddress) ! 0
      = ''0''"
    by (simp add: age_signals)
qed

text \<open>C3: the first public signal of \<open>generateAgeVerificationProof\<close> is to be "0" for a date
  of birth one day short of 18 years before today. In a time zone west of UTC the code answers
  "1": on 2 November 2026, local time, the date of birth \<open>2008-11-03\<close> is read as midnight UTC,
  its local calendar fields are those of 2 November 2008, and the age comes out as 18. The
  same call on the same day with local time UTC answers "0".\<close>

theorem age_proof_day_short_west_of_utc:
  "Date_parse example_runtime_west ''2008-11-03''
     = Some \<lparr>getFullYear = 2008, getMonth = 10, getDate = 2, getTime = 1225670400000\<rparr>
   \<and> publicSignals (generateAgeVerificationProof example_runtime_west example_today_west
        ''2008-11-03'' 18 ''0xabc'') ! 0 = ''1''
   \<and> publicSignals (generateAgeVerificationProof example_runtime example_today
        ''2008-11-03'' 18 ''0xabc'') ! 0 = ''0''"
  by (simp add: age_signals example_runtime_west_def example_dates_west_def
      example_today_west_def example_runtime_def example_dates_def example_today_def
      calendar_age_def birthday_not_reached_def)

subsection \<open>The document proof\<close>





subsection \<open>Generated artifacts pass the verifier\<close>

lemma generated_shape:
  assumes "prf = generateAgeVerificationProof rt today dob minimumAge userAddress \<or>
       prf = generateDocumentValidityProof rt today' expiryDate' documentType' userAddress' \<or>
       prf = generateFullKYCProof rt clk kycData userAddress'' options"
  shows "(\<exists>s. proof_field prf = hashData rt s) \<and> publicSignals prf \<noteq> []"
  using assms
proof (elim disjE)
  assume "prf = generateAgeVerificationProof rt today dob minimumAge userAddress"
  then show ?thesis
    by (auto simp: generateAgeVerificationProof_def Let_def)
next
  assume "prf = generateDocumentValidityProof rt today' expiryDate' documentType' userAddress'"
  then show ?thesis
    by (auto simp: generateDocumentValidityProof_def Let_def)
next
  assume "prf = generateFullKYCProof rt clk kycData userAddress'' options"
  then show ?thesis
    by (auto simp: generateFullKYCProof_def Let_def)
qed

lemma hashData_structurally_valid:
  assumes "\<forall>s. length (sha256 rt s) = 32"
    and "proof_field prf = hashData rt s" and "publicSignals prf \<noteq> []"
  shows "structurally_valid prf"
  using assms by (simp add: structurally_valid_def length_hashData set_hashData)

lemma verify_structurally_valid:
  assumes "structurally_valid prf"
  shows "verifyZKProof prf circuitType =
       \<lparr>zk_isValid = (publicSignals prf ! 0 = ''1''),
        zk_nullifierHash = nullifierHash prf,
        publicOutputs = publicSignals prf\<rparr>"
proof -
  from assms have "length (proof_field prf) = 64" and "publicSignals prf \<noteq> []"
    by (simp_all add: structurally_valid_def)
  then show ?thesis
    by (auto simp: verifyZKProof_def Let_def)
qed

lemma length_example_sha256: "length (example_sha256 s) = 32"
  by (simp add: example_sha256_def Let_def)

lemma example_full_signals:
  "publicSignals (generateFullKYCProof example_runtime example_clock example_kyc
      ''0xabc'' example_options) = [''1'', ''1'', ''1'', ''1'', ''18'']"
  by (simp add: full_signals Let_def age_signals doc_signals example_options_def
      example_runtime_def example_clock_def example_kyc_def example_dates_def example_today_def
      nationality_allowed_def calendar_age_def birthday_not_reached_def ms_per_day_def
      toString_def decimal_def digits.simps [of 10 18] digits.simps [of 10 1] digit_char_def hex_digits_def)

text \<open>C10: when the digest has the 32 bytes of SHA-256, every artifact of
  \<open>generateAgeVerificationProof\<close>, \<open>generateDocumentValidityProof\<close> and
  \<open>generateFullKYCProof\<close> has a proof field of 64 hexadecimal digits and a list of public
  signals that is not empty; so, for every circuit type, \<open>verifyZKProof\<close> returns the
  artifact's public signals as public outputs, the artifact's nullifier, and \<open>isValid\<close> true
  exactly when the first public signal is "1".\<close>

theorem generated_proofs_verify:
  assumes digest_width: "\<forall>s. length (sha256 rt s) = 32"
    and generated:
      "prf = generateAgeVerificationProof rt today dob minimumAge userAddress \<or>
       prf = generateDocumentValidityProof rt today' expiryDate' documentType' userAddress' \<or>
       prf = generateFullKYCProof rt clk kycData userAddress'' options"
  shows "structurally_valid prf \<and>
     verifyZKProof prf circuitType =
       \<lparr>zk_isValid = (publicSignals prf ! 0 = ''1''),
        zk_nullifierHash = nullifierHash prf,
        publicOutputs = publicSignals prf\<rparr>"
proof -
  from generated_shape [OF generated]
  obtain s where "proof_field prf = hashData rt s" and "publicSignals prf \<noteq> []"
    by blast
  with digest_width have "structurally_valid prf"
    by (rule hashData_structurally_valid)
  then show ?thesis
    by (simp add: verify_structurally_valid)
qed

theorem generated_proofs_verify_witness:
  "(\<forall>s. length (sha256 example_runtime s) = 32)
   \<and> verifyZKProof
        (generateFullKYCProof example_runtime example_clock example_kyc ''0xabc'' example_options)
        full_kyc
     = \<lparr>zk_isValid = True,
        zk_nullifierHash = nullifierHash
          (generateFullKYCProof example_runtime example_clock example_kyc ''0xabc''
             example_options),
        publicOutputs = [''1'', ''1'', ''1'', ''1'', ''18'']\<rparr>"
proof -
  have w: "\<forall>s. length (sha256 example_runtime s) = 32"
    by (simp add: example_runtime_def length_example_sha256)
  have g: "generateFullKYCProof example_runtime example_clock example_kyc ''0xabc'' example_options
      = generateAgeVerificationProof example_runtime example_today ''2000-01-01'' 18 ''0xabc'' \<or>
    generateFullKYCProof example_runtime example_clock example_kyc ''0xabc'' example_options
      = generateDocumentValidityProof example_runtime example_today ''2026-12-03'' ''passport''
          ''0xabc'' \<or>
    generateFullKYCProof example_runtime example_clock example_kyc ''0xabc'' example_options
      = generateFullKYCProof example_runtime example_clock example_kyc ''0xabc'' example_options"
    by simp
  show ?thesis
    using w generated_proofs_verify [OF w g, of full_kyc]
    by (simp add: example_full_signals)
qed

subsection \<open>Network profiles\<close>

lemma getNetworkConfig_001_spec:
  "chainId (getNetworkConfig_001 42161) = 42161
   \<and> chainId (getNetworkConfig_001 421614) = 421614
   \<and> (cid \<noteq> 42161 \<longrightarrow> getNetworkConfig_001 cid = ARBITRUM_SEPOLIA_CONFIG)"
  by (simp add: getNetworkConfig_001_def ARBITRUM_MAINNET_CONFIG_def ARBITRUM_SEPOLIA_CONFIG_def)

text \<open>C9: \<open>getNetworkConfig\<close> of src/unnamed/part\_004 answers each of the two recognized
  chain ids with the profile of the other network: 421614 (Arbitrum Sepolia) gets the mainnet
  profile, whose chain id is 42161, and 42161 (Arbitrum mainnet) gets the Sepolia profile, whose
  chain id is 421614. The version of src/unnamed/part\_001 returns, for both, the profile whose
  chain id is the argument.\<close>

theorem getNetworkConfig_swapped:
  "chainId (getNetworkConfig 421614) = 42161
   \<and> getNetworkConfig 421614 = ARBITRUM_MAINNET_CONFIG
   \<and> chainId (getNetworkConfig 42161) = 421614
   \<and> chainId (getNetworkConfig 421614) \<noteq> 421614
   \<and> chainId (getNetworkConfig 42161) \<noteq> 42161"
  by (simp add: getNetworkConfig_def ARBITRUM_MAINNET_CONFIG_def ARBITRUM_SEPOLIA_CONFIG_def)

subsection \<open>The verification session\<close>

lemma state_updateState [simp]: "state (updateState f s) = f (state s)"
  by (simp add: updateState_def)

lemma history_updateState [simp]: "history (updateState f s) = history s @ [f (state s)]"
  by (simp add: updateState_def)

lemma calls_updateState [simp]: "calls (updateState f s) = calls s"
  by (simp add: updateState_def)

lemma state_called [simp]: "state (called cs s) = state s"
  by (simp add: called_def)

lemma history_called [simp]: "history (called cs s) = history s"
  by (simp add: called_def)

lemma calls_called [simp]: "calls (called cs s) = calls s @ cs"
  by (simp add: called_def)

lemma new_states_append [simp]: "history s' = history s0 @ xs \<Longrightarrow> new_states s0 s' = xs"
  by (simp add: new_states_def)

text \<open>What the \<open>try\<close> block does when the local verification fails.\<close>

lemma try_local_failure:
  assumes "encryptForTEE_result be = Inr encryptedData'"
    and "\<not> local_proof_valid rt rc kycData addr"
  shows "\<exists>s. startVerification_try be rt rc tee kycData addr s0 = (s, None)
     \<and> status (state s) = failed
     \<and> error (state s) = Some ''ZK proof verification failed. Please check your information.''
     \<and> currentStep (state s) = 3
     \<and> calls s = calls s0 @ [Call_encryptForTEE, Call_createCommitment,
          Call_generateFullKYCProof, Call_verifyZKProof]
     \<and> zkProof (state s) = zkProof (state s0)
     \<and> verificationResult (state s) = verificationResult (state s0)
     \<and> transactionHash (state s) = transactionHash (state s0)"
  using assms
  by (simp add: startVerification_try_def Let_def local_proof_valid_def local_proof_def)

lemma with_local_failure:
  assumes "wallet_connected userAddress addr"
    and "encryptForTEE_result be = Inr encryptedData'"
    and "\<not> local_proof_valid rt rc kycData addr"
  shows "status (state (startVerification_with tee be rt rc userAddress kycData s0)) = failed
     \<and> error (state (startVerification_with tee be rt rc userAddress kycData s0))
         = Some ''ZK proof verification failed. Please check your information.''
     \<and> currentStep (state (startVerification_with tee be rt rc userAddress kycData s0)) = 3
     \<and> calls (startVerification_with tee be rt rc userAddress kycData s0)
         = calls s0 @ [Call_encryptForTEE, Call_createCommitment,
             Call_generateFullKYCProof, Call_verifyZKProof]
     \<and> zkProof (state (startVerification_with tee be rt rc userAddress kycData s0))
         = zkProof (state s0)
     \<and> verificationResult (state (startVerification_with tee be rt rc userAddress kycData s0))
         = verificationResult (state s0)
     \<and> transactionHash (state (startVerification_with tee be rt rc userAddress kycData s0))
         = transactionHash (state s0)"
proof -
  from try_local_failure [OF assms(2,3), of "tee addr" s0]
  obtain s where "startVerification_try be rt rc (tee addr) kycData addr s0 = (s, None)"
    and "status (state s) = failed"
    and "error (state s) = Some ''ZK proof verification failed. Please check your information.''"
    and "currentStep (state s) = 3"
    and "calls s = calls s0 @ [Call_encryptForTEE, Call_createCommitment,
          Call_generateFullKYCProof, Call_verifyZKProof]"
    and "zkProof (state s) = zkProof (state s0)"
    and "verificationResult (state s) = verificationResult (state s0)"
    and "transactionHash (state s) = transactionHash (state s0)"
    by blast
  with assms(1) show ?thesis
    by (simp add: startVerification_with_def wallet_connected_def)
qed

text \<open>C6: in every run of \<open>startVerification\<close> (of either version) with a wallet connected
  that reaches step 2 and whose generated full proof fails \<open>verifyZKProof\<close>, the session ends
  with status \<open>failed\<close>, the error message of the local verification and step 3; the run has
  called the encryption, the commitment, the generator and the verifier and nothing else, so
  none of the calls of the confidential execution or of its simulation; and the fields
  \<open>zkProof\<close>, \<open>verificationResult\<close> and \<open>transactionHash\<close> are what they were before the run,
  null for a run from the initial session.\<close>

theorem local_verification_failure_is_final:
  assumes "wallet_connected userAddress addr"
    and "encryptForTEE_result be = Inr encryptedData'"
    and "\<not> local_proof_valid rt rc kycData addr"
    and "s' = startVerification be rt rc hasProvider cid userAddress kycData s0 \<or>
         s' = startVerification_002 be rt rc userAddress kycData s0"
  shows "status (state s') = failed
     \<and> error (state s') = Some ''ZK proof verification failed. Please check your information.''
     \<and> currentStep (state s') = 3
     \<and> calls s' = calls s0 @ [Call_encryptForTEE, Call_createCommitment,
          Call_generateFullKYCProof, Call_verifyZKProof]
     \<and> (set (calls s0) \<inter> remote_calls = {} \<longrightarrow> set (calls s') \<inter> remote_calls = {})
     \<and> zkProof (state s') = zkProof (state s0)
     \<and> verificationResult (state s') = verificationResult (state s0)
     \<and> transactionHash (state s') = transactionHash (state s0)
     \<and> (s0 = initial_session \<longrightarrow>
          zkProof (state s') = None \<and> verificationResult (state s') = None \<and>
          transactionHash (state s') = None)"
proof -
  from assms(4) obtain tee where s': "s' = startVerification_with tee be rt rc userAddress kycData s0"
    by (auto simp: startVerification_def startVerification_002_def)
  note facts = with_local_failure [OF assms(1,2,3), of tee s0, folded s']
  from facts have "calls s' = calls s0 @ [Call_encryptForTEE, Call_createCommitment,
          Call_generateFullKYCProof, Call_verifyZKProof]"
    by simp
  then have remote: "set (calls s0) \<inter> remote_calls = {} \<longrightarrow> set (calls s') \<inter> remote_calls = {}"
    by (auto simp: remote_calls_def)
  have init: "zkProof (state initial_session) = None \<and>
      verificationResult (state initial_session) = None \<and>
      transactionHash (state initial_session) = None"
    by (simp add: initial_session_def initial_state_def)
  from facts remote init show ?thesis
    by auto
qed

lemma example_minor_signals:
  "publicSignals (local_proof example_runtime example_run_clock
      (example_kyc\<lparr>dateOfBirth := ''2008-11-03''\<rparr>) ''0xabc'')
   = [''0'', ''0'', ''1'', ''1'', ''18'']"
  by (simp add: local_proof_def full_signals Let_def age_signals doc_signals
      example_run_clock_def
      example_runtime_def example_clock_def example_kyc_def example_dates_def example_today_def
      nationality_allowed_def calendar_age_def birthday_not_reached_def ms_per_day_def
      toString_def decimal_def digits.simps [of 10 18] digits.simps [of 10 1] digit_char_def hex_digits_def)

lemma example_minor_invalid:
  "\<not> local_proof_valid example_runtime example_run_clock
      (example_kyc\<lparr>dateOfBirth := ''2008-11-03''\<rparr>) ''0xabc''"
proof -
  have w: "\<forall>s. length (sha256 example_runtime s) = 32"
    by (simp add: example_runtime_def length_example_sha256)
  have "structurally_valid (local_proof example_runtime example_run_clock
      (example_kyc\<lparr>dateOfBirth := ''2008-11-03''\<rparr>) ''0xabc'')"
    using w by (rule hashData_structurally_valid)
      (simp_all add: local_proof_def generateFullKYCProof_def Let_def)
  then show ?thesis
    by (simp add: local_proof_valid_def verify_structurally_valid example_minor_signals)
qed

theorem local_verification_failure_is_final_witness:
  "status (state (startVerification example_backend example_runtime example_run_clock True
      (Some 421614) (Some ''0xabc'') (example_kyc\<lparr>dateOfBirth := ''2008-11-03''\<rparr>)
      initial_session)) = failed
   \<and> calls (startVerification example_backend example_runtime example_run_clock True
      (Some 421614) (Some ''0xabc'') (example_kyc\<lparr>dateOfBirth := ''2008-11-03''\<rparr>)
      initial_session)
     = [Call_encryptForTEE, Call_createCommitment, Call_generateFullKYCProof, Call_verifyZKProof]
   \<and> zkProof (state (startVerification example_backend example_runtime example_run_clock True
      (Some 421614) (Some ''0xabc'') (example_kyc\<lparr>dateOfBirth := ''2008-11-03''\<rparr>)
      initial_session)) = None
   \<and> verificationResult (state (startVerification_002 example_backend example_runtime
      example_run_clock (Some ''0xabc'') (example_kyc\<lparr>dateOfBirth := ''2008-11-03''\<rparr>)
      initial_session)) = None"
proof -
  have wallet: "wallet_connected (Some ''0xabc'') ''0xabc''"
    by (simp add: wallet_connected_def)
  have enc: "encryptForTEE_result example_backend = Inr ''ciphertext''"
    by (simp add: example_backend_def)
  show ?thesis
    using
      local_verification_failure_is_final [OF wallet enc example_minor_invalid,
        of "startVerification example_backend example_runtime example_run_clock True
          (Some 421614) (Some ''0xabc'') (example_kyc\<lparr>dateOfBirth := ''2008-11-03''\<rparr>)
          initial_session" True "Some 421614" initial_session]
      local_verification_failure_is_final [OF wallet enc example_minor_invalid,
        of "startVerification_002 example_backend example_runtime example_run_clock
          (Some ''0xabc'') (example_kyc\<lparr>dateOfBirth := ''2008-11-03''\<rparr>)
          initial_session" True "Some 421614" initial_session]
    by (simp add: initial_session_def initial_state_def)
qed













subsection \<open>The confidential worker\<close>

text \<open>The bulk loop makes one entry for every index from \<open>i\<close> to \<open>bulkSize\<close>, whatever the
  items before it did.\<close>

lemma bulk_loop_all:
  "bulk_loop env bulkSize i acc =
     (fst acc @ map (\<lambda>j. fst (process_item env j)) [i..bulkSize],
      snd acc @ concat (map (\<lambda>j. snd (process_item env j)) [i..bulkSize]))"
proof (induction env bulkSize i acc rule: bulk_loop.induct)
  case (1 env bulkSize i acc)
  show ?case
  proof (cases "i \<le> bulkSize")
    case True
    then have "[i..bulkSize] = i # [i + 1..bulkSize]"
      by (simp add: upto_rec1)
    with True "1.IH" show ?thesis
      by (simp add: bulk_loop.simps [of env bulkSize i acc])
  next
    case False
    then show ?thesis
      by (simp add: bulk_loop.simps [of env bulkSize i acc])
  qed
qed

text \<open>Every file of the loop over the input files is a copy named \<open>processed_...\<close>.\<close>

lemma input_loop_paths:
  assumes "\<forall>f \<in> set (fst acc). fst f \<noteq> out @ ''/computed.json''"
  shows "\<forall>f \<in> set (fst (input_loop env out i acc)). fst f \<noteq> out @ ''/computed.json''"
  using assms
proof (induction env out i acc rule: input_loop.induct)
  case (1 env out i acc)
  show ?case
  proof (cases "js_le (Some i) (IEXEC_INPUT_FILES_NUMBER env)")
    case False
    with "1.prems" show ?thesis
      by (simp add: input_loop.simps [of env out i acc])
  next
    case True
    show ?thesis
    proof (cases "readFile env (IEXEC_IN env @ ''/'' @ IEXEC_INPUT_FILE_NAME env i)")
      case (Inl message)
      with True "1.prems" show ?thesis
        by (simp add: input_loop.simps [of env out i acc] Let_def)
    next
      case (Inr fileData)
      show ?thesis
      proof (cases "copyFile env (IEXEC_IN env @ ''/'' @ IEXEC_INPUT_FILE_NAME env i)
          (out @ ''/processed_'' @ IEXEC_INPUT_FILE_NAME env i)")
        case (Some message)
        with True Inr "1.prems" show ?thesis
          by (simp add: input_loop.simps [of env out i acc] Let_def)
      next
        case None
        have "\<forall>f \<in> set (fst (fst acc @
              [(out @ ''/processed_'' @ IEXEC_INPUT_FILE_NAME env i,
                Copy_of (IEXEC_IN env @ ''/'' @ IEXEC_INPUT_FILE_NAME env i))],
              snd acc @ [sha256_hex env fileData])). fst f \<noteq> out @ ''/computed.json''"
          using "1.prems" by auto
        from "1.IH" [OF True refl refl Inr refl None this] True Inr None show ?thesis
          by (simp add: input_loop.simps [of env out i acc] Let_def)
      qed
    qed
  qed
qed

lemma main_try_paths:
  "\<forall>f \<in> set (fst (main_try env out)). fst f \<noteq> out @ ''/computed.json''"
proof -
  define bulk where "bulk = (case IEXEC_BULK_SLICE_SIZE env of
                    Some n \<Rightarrow> if n > 0 then bulk_loop env n 1 ([], []) else ([], [])
                  | None \<Rightarrow> ([], []))"
  have loop: "\<forall>f \<in> set (fst (input_loop env out 1 ([], snd bulk))).
      fst f \<noteq> out @ ''/computed.json''"
    by (rule input_loop_paths) simp
  obtain fs r where r: "input_loop env out 1 ([], snd bulk) = (fs, r)"
    by (cases "input_loop env out 1 ([], snd bulk)")
  with loop have fs: "\<forall>f \<in> set fs. fst f \<noteq> out @ ''/computed.json''"
    by simp
  show ?thesis
    using fs r
    by (auto simp: main_try_def Let_def bulk_def [symmetric]
        split: sum.splits option.splits)
qed

lemma main_try_report:
  assumes "snd (main_try env out) = Inr obj"
  shows "\<exists>fs rep. fst (main_try env out) = fs @ [(out @ ''/kyc-verification-result.json'', Report rep)]
     \<and> verificationResults rep =
         (case IEXEC_BULK_SLICE_SIZE env of
            None \<Rightarrow> []
          | Some n \<Rightarrow> map (\<lambda>i. fst (process_item env i)) [1..n])"
proof -
  define bulk where "bulk = (case IEXEC_BULK_SLICE_SIZE env of
                    Some n \<Rightarrow> if n > 0 then bulk_loop env n 1 ([], []) else ([], [])
                  | None \<Rightarrow> ([], []))"
  have entries: "fst bulk =
      (case IEXEC_BULK_SLICE_SIZE env of
         None \<Rightarrow> []
       | Some n \<Rightarrow> map (\<lambda>i. fst (process_item env i)) [1..n])"
    by (simp add: bulk_def bulk_loop_all split: option.splits)
  obtain fs r where r: "input_loop env out 1 ([], snd bulk) = (fs, r)"
    by (cases "input_loop env out 1 ([], snd bulk)")
  from assms r entries show ?thesis
    by (auto simp: main_try_def Let_def bulk_def [symmetric] bulk_loop_all
        split: sum.splits option.splits)
qed

text \<open>The loop over the input files ends normally when every file in its range can be read
  and copied, and throws when one cannot.\<close>

lemma input_loop_ok:
  assumes "\<forall>j. i \<le> j \<and> js_le (Some j) (IEXEC_INPUT_FILES_NUMBER env) \<longrightarrow> input_file_ok env out j"
  shows "\<exists>fs hs. input_loop env out i acc = (fs, Inr hs)"
  using assms
proof (induction env out i acc rule: input_loop.induct)
  case (1 env out i acc)
  show ?case
  proof (cases "js_le (Some i) (IEXEC_INPUT_FILES_NUMBER env)")
    case False
    then show ?thesis
      by (simp add: input_loop.simps [of env out i acc])
  next
    case True
    with "1.prems" have ok: "input_file_ok env out i"
      by simp
    then obtain fileData where
      rd: "readFile env (IEXEC_IN env @ ''/'' @ IEXEC_INPUT_FILE_NAME env i) = Inr fileData"
      and cp: "copyFile env (IEXEC_IN env @ ''/'' @ IEXEC_INPUT_FILE_NAME env i)
          (out @ ''/processed_'' @ IEXEC_INPUT_FILE_NAME env i) = None"
      by (auto simp: input_file_ok_def split: sum.splits)
    have next_ok: "\<forall>j. i + 1 \<le> j \<and> js_le (Some j) (IEXEC_INPUT_FILES_NUMBER env)
        \<longrightarrow> input_file_ok env out j"
      using "1.prems" by simp
    from "1.IH" [OF True refl refl rd refl cp next_ok] True rd cp show ?thesis
      by (simp add: input_loop.simps [of env out i acc] Let_def)
  qed
qed

lemma input_loop_fails:
  assumes "\<exists>j. i \<le> j \<and> js_le (Some j) (IEXEC_INPUT_FILES_NUMBER env) \<and> \<not> input_file_ok env out j"
  shows "\<exists>fs message. input_loop env out i acc = (fs, Inl message)"
  using assms
proof (induction env out i acc rule: input_loop.induct)
  case (1 env out i acc)
  from "1.prems" obtain j where j: "i \<le> j" "js_le (Some j) (IEXEC_INPUT_FILES_NUMBER env)"
    "\<not> input_file_ok env out j"
    by blast
  from j(2) obtain n where n: "IEXEC_INPUT_FILES_NUMBER env = Some n" "j \<le> n"
    by (cases "IEXEC_INPUT_FILES_NUMBER env") simp_all
  with j(1) have True: "js_le (Some i) (IEXEC_INPUT_FILES_NUMBER env)"
    by simp
  show ?case
  proof (cases "readFile env (IEXEC_IN env @ ''/'' @ IEXEC_INPUT_FILE_NAME env i)")
    case (Inl message)
    with True show ?thesis
      by (simp add: input_loop.simps [of env out i acc] Let_def)
  next
    case (Inr fileData)
    show ?thesis
    proof (cases "copyFile env (IEXEC_IN env @ ''/'' @ IEXEC_INPUT_FILE_NAME env i)
        (out @ ''/processed_'' @ IEXEC_INPUT_FILE_NAME env i)")
      case (Some message)
      with True Inr show ?thesis
        by (simp add: input_loop.simps [of env out i acc] Let_def)
    next
      case None
      with Inr have "input_file_ok env out i"
        by (simp add: input_file_ok_def)
      with j(3) have "j \<noteq> i"
        by blast
      with j have "\<exists>j. i + 1 \<le> j \<and> js_le (Some j) (IEXEC_INPUT_FILES_NUMBER env) \<and>
          \<not> input_file_ok env out j"
        by (intro exI [of _ j]) simp
      from "1.IH" [OF True refl refl Inr refl None this] True Inr None show ?thesis
        by (simp add: input_loop.simps [of env out i acc] Let_def)
    qed
  qed
qed

lemma input_files_readable_iff:
  "input_files_readable env out \<longleftrightarrow>
     (\<forall>j. 1 \<le> j \<and> js_le (Some j) (IEXEC_INPUT_FILES_NUMBER env) \<longrightarrow> input_file_ok env out j)"
  by (cases "IEXEC_INPUT_FILES_NUMBER env") (auto simp: input_files_readable_def list_all_iff)

text \<open>The \<open>try\<close> block ends normally exactly when the input files can be read and copied and
  the report can be written: what the datasets do has no part in it.\<close>

lemma main_try_succeeds:
  assumes "input_files_readable env out"
    and "writeFile env (out @ ''/kyc-verification-result.json'') = None"
  shows "snd (main_try env out)
      = Inr [(''deterministic-output-path'', out @ ''/kyc-verification-result.json'')]"
proof -
  define bulk where "bulk = (case IEXEC_BULK_SLICE_SIZE env of
                    Some n \<Rightarrow> if n > 0 then bulk_loop env n 1 ([], []) else ([], [])
                  | None \<Rightarrow> ([], []))"
  from assms(1) have "\<forall>j. 1 \<le> j \<and> js_le (Some j) (IEXEC_INPUT_FILES_NUMBER env)
      \<longrightarrow> input_file_ok env out j"
    by (simp add: input_files_readable_iff)
  from input_loop_ok [OF this, of "([], snd bulk)"]
  obtain fs hs where "input_loop env out 1 ([], snd bulk) = (fs, Inr hs)"
    by (elim exE)
  with assms(2) show ?thesis
    by (simp add: main_try_def Let_def bulk_def [symmetric])
qed

lemma main_try_fails:
  assumes "\<not> (input_files_readable env out \<and>
      writeFile env (out @ ''/kyc-verification-result.json'') = None)"
  shows "\<exists>message. snd (main_try env out) = Inl message"
proof -
  define bulk where "bulk = (case IEXEC_BULK_SLICE_SIZE env of
                    Some n \<Rightarrow> if n > 0 then bulk_loop env n 1 ([], []) else ([], [])
                  | None \<Rightarrow> ([], []))"
  show ?thesis
  proof (cases "input_files_readable env out")
    case False
    then have "\<exists>j. 1 \<le> j \<and> js_le (Some j) (IEXEC_INPUT_FILES_NUMBER env) \<and>
        \<not> input_file_ok env out j"
      by (simp add: input_files_readable_iff)
    from input_loop_fails [OF this, of "([], snd bulk)"]
    obtain fs message where "input_loop env out 1 ([], snd bulk) = (fs, Inl message)"
      by (elim exE)
    then show ?thesis
      by (simp add: main_try_def Let_def bulk_def [symmetric])
  next
    case True
    with assms obtain message where
      w: "writeFile env (out @ ''/kyc-verification-result.json'') = Some message"
      by (cases "writeFile env (out @ ''/kyc-verification-result.json'')") simp_all
    from True have "\<forall>j. 1 \<le> j \<and> js_le (Some j) (IEXEC_INPUT_FILES_NUMBER env)
        \<longrightarrow> input_file_ok env out j"
      by (simp add: input_files_readable_iff)
    from input_loop_ok [OF this, of "([], snd bulk)"]
    obtain fs hs where "input_loop env out 1 ([], snd bulk) = (fs, Inr hs)"
      by (elim exE)
    with w show ?thesis
      by (simp add: main_try_def Let_def bulk_def [symmetric])
  qed
qed

lemma main_try_report_entries:
  assumes "snd (main_try env out) = Inr obj"
  shows "\<exists>fs rep. fst (main_try env out) = fs @ [(out @ ''/kyc-verification-result.json'', Report rep)]
     \<and> verificationResults rep = bulk_entries env"
  using main_try_report [OF assms] by (simp add: bulk_entries_def)

text \<open>C8: when the platform has set the output directory and \<open>computed.json\<close> can be written
  there, every invocation of the worker resolves and writes \<open>computed.json\<close> exactly once, as
  the last file. Whatever the datasets do, the invocation is on the success path exactly when
  every input file can be read and copied and the report can be written: then
  \<open>computed.json\<close> holds the key \<open>deterministic-output-path\<close> alone, with the path of the
  report, and the report has an entry for every index from 1 to the bulk size; otherwise the
  \<open>try\<close> block throws and \<open>computed.json\<close> holds \<open>deterministic-output-path\<close> and
  \<open>error-message\<close>. A dataset whose processing throws gets the entry of its error, and the
  bulk loop goes on to the next index.\<close>

theorem worker_completion_descriptor:
  assumes "IEXEC_OUT env = Some out"
    and "writeFile env (out @ ''/computed.json'') = None"
  shows
    "snd (main env) = Resolved
     \<and> length (filter (\<lambda>f. fst f = out @ ''/computed.json'') (fst (main env))) = 1
     \<and> (input_files_readable env out \<and>
        writeFile env (out @ ''/kyc-verification-result.json'') = None \<longrightarrow>
          snd (main_try env out)
            = Inr [(''deterministic-output-path'', out @ ''/kyc-verification-result.json'')] \<and>
          last (fst (main env)) =
            (out @ ''/computed.json'',
             Computed [(''deterministic-output-path'',
                        out @ ''/kyc-verification-result.json'')]) \<and>
          (\<exists>rep. (out @ ''/kyc-verification-result.json'', Report rep) \<in> set (fst (main env)) \<and>
             verificationResults rep = bulk_entries env))
     \<and> (\<not> (input_files_readable env out \<and>
           writeFile env (out @ ''/kyc-verification-result.json'') = None) \<longrightarrow>
          (\<exists>message. snd (main_try env out) = Inl message) \<and>
          last (fst (main env)) =
            (out @ ''/computed.json'',
             Computed [(''deterministic-output-path'', out),
                       (''error-message'', ''Oops something went wrong'')]))
     \<and> (\<forall>n. IEXEC_BULK_SLICE_SIZE env = Some n \<longrightarrow>
          length (bulk_entries env) = nat n \<and>
          (\<forall>i. 1 \<le> i \<and> i \<le> n \<longrightarrow>
             bulk_entries env ! nat (i - 1) = fst (process_item env i) \<and>
             (\<forall>message. dataset env i = Inl message \<longrightarrow>
                bulk_entries env ! nat (i - 1) = Errored i message (item_timestamp env i))) \<and>
          (0 < n \<longrightarrow> fst (bulk_loop env n 1 ([], [])) = bulk_entries env))"
proof (intro conjI allI impI)
  show "snd (main env) = Resolved"
    using assms by (simp add: main_def Let_def)
next
  have "filter (\<lambda>f. fst f = out @ ''/computed.json'') (fst (main_try env out)) = []"
    using main_try_paths [of env out] by (simp add: filter_empty_conv)
  with assms show
    "length (filter (\<lambda>f. fst f = out @ ''/computed.json'') (fst (main env))) = 1"
    by (simp add: main_def Let_def)
next
  assume ok: "input_files_readable env out \<and>
        writeFile env (out @ ''/kyc-verification-result.json'') = None"
  then have s: "snd (main_try env out)
      = Inr [(''deterministic-output-path'', out @ ''/kyc-verification-result.json'')]"
    by (simp add: main_try_succeeds)
  then show "snd (main_try env out)
      = Inr [(''deterministic-output-path'', out @ ''/kyc-verification-result.json'')]" .
  from s assms show "last (fst (main env)) =
            (out @ ''/computed.json'',
             Computed [(''deterministic-output-path'',
                        out @ ''/kyc-verification-result.json'')])"
    by (simp add: main_def Let_def)
  from main_try_report_entries [OF s]
  obtain fs rep where
    "fst (main_try env out) = fs @ [(out @ ''/kyc-verification-result.json'', Report rep)]"
    and "verificationResults rep = bulk_entries env"
    by (elim exE conjE)
  with assms show
    "\<exists>rep. (out @ ''/kyc-verification-result.json'', Report rep) \<in> set (fst (main env)) \<and>
       verificationResults rep = bulk_entries env"
    by (auto simp: main_def Let_def)
next
  assume "\<not> (input_files_readable env out \<and>
           writeFile env (out @ ''/kyc-verification-result.json'') = None)"
  from main_try_fails [OF this] obtain message where f: "snd (main_try env out) = Inl message"
    by (elim exE)
  then show "\<exists>message. snd (main_try env out) = Inl message"
    by blast
  from f assms show "last (fst (main env)) =
            (out @ ''/computed.json'',
             Computed [(''deterministic-output-path'', out),
                       (''error-message'', ''Oops something went wrong'')])"
    by (simp add: main_def Let_def)
next
  fix n assume "IEXEC_BULK_SLICE_SIZE env = Some n"
  then show "length (bulk_entries env) = nat n"
    by (simp add: bulk_entries_def)
next
  fix n i assume n: "IEXEC_BULK_SLICE_SIZE env = Some n" and i: "1 \<le> i \<and> i \<le> n"
  then have "[1..n] ! nat (i - 1) = i"
    by (simp add: nth_upto)
  with n i show e: "bulk_entries env ! nat (i - 1) = fst (process_item env i)"
    by (simp add: bulk_entries_def)
  fix message assume "dataset env i = Inl message"
  with e show "bulk_entries env ! nat (i - 1) = Errored i message (item_timestamp env i)"
    by (simp add: process_item_def)
next
  fix n assume "IEXEC_BULK_SLICE_SIZE env = Some n" and "0 < n"
  then show "fst (bulk_loop env n 1 ([], [])) = bulk_entries env"
    by (simp add: bulk_loop_all bulk_entries_def)
qed

lemma example_worker_statuses:
  "map verificationStatus (bulk_entries example_worker_env)
     = [Some VERIFIED, None, Some VERIFIED]"
  by code_simp

theorem worker_completion_descriptor_witness:
  "snd (main example_worker_env) = Resolved
   \<and> length (filter (\<lambda>f. fst f = ''/iexec_out/computed.json'')
        (fst (main example_worker_env))) = 1
   \<and> last (fst (main example_worker_env)) =
        (''/iexec_out/computed.json'',
         Computed [(''deterministic-output-path'', ''/iexec_out/kyc-verification-result.json'')])
   \<and> (\<exists>rep. (''/iexec_out/kyc-verification-result.json'', Report rep)
          \<in> set (fst (main example_worker_env)) \<and>
        map verificationStatus (verificationResults rep) = [Some VERIFIED, None, Some VERIFIED])
   \<and> bulk_entries example_worker_env ! 1
       = Errored 2 ''Failed to load protected data'' ''2026-11-02T00:00:00.000Z''
   \<and> length (filter (\<lambda>f. fst f = ''/iexec_out/computed.json'')
        (fst (main example_failing_env))) = 1
   \<and> last (fst (main example_failing_env)) =
        (''/iexec_out/computed.json'',
         Computed [(''deterministic-output-path'', ''/iexec_out''),
                   (''error-message'', ''Oops something went wrong'')])"
proof -
  have out: "IEXEC_OUT example_worker_env = Some ''/iexec_out''"
    and w: "writeFile example_worker_env (''/iexec_out'' @ ''/computed.json'') = None"
    and ok: "input_files_readable example_worker_env ''/iexec_out'' \<and>
      writeFile example_worker_env (''/iexec_out'' @ ''/kyc-verification-result.json'') = None"
    and size: "IEXEC_BULK_SLICE_SIZE example_worker_env = Some 3"
    and second: "dataset example_worker_env 2 = Inl ''Failed to load protected data''"
    and ts: "item_timestamp example_worker_env 2 = ''2026-11-02T00:00:00.000Z''"
    by (simp_all add: example_worker_env_def input_files_readable_def)
  have out': "IEXEC_OUT example_failing_env = Some ''/iexec_out''"
    and w': "writeFile example_failing_env (''/iexec_out'' @ ''/computed.json'') = None"
    and bad: "\<not> (input_files_readable example_failing_env ''/iexec_out'' \<and>
      writeFile example_failing_env (''/iexec_out'' @ ''/kyc-verification-result.json'') = None)"
    by (simp_all add: example_failing_env_def example_worker_env_def input_files_readable_def
        input_file_ok_def)
  note good = worker_completion_descriptor [OF out w]
  note failing = worker_completion_descriptor [OF out' w']
  note resolved = good [THEN conjunct1]
  note once = good [THEN conjunct2, THEN conjunct1]
  note success = good [THEN conjunct2, THEN conjunct2, THEN conjunct1, THEN mp, OF ok]
  note entries = good [THEN conjunct2, THEN conjunct2, THEN conjunct2, THEN conjunct2,
      THEN spec, THEN mp, OF size]
  note once' = failing [THEN conjunct2, THEN conjunct1]
  note failure = failing [THEN conjunct2, THEN conjunct2, THEN conjunct2, THEN conjunct1,
      THEN mp, OF bad]
  from success [THEN conjunct2, THEN conjunct2] obtain rep where
    rep: "(''/iexec_out'' @ ''/kyc-verification-result.json'', Report rep)
        \<in> set (fst (main example_worker_env))"
    and res: "verificationResults rep = bulk_entries example_worker_env"
    by (elim exE conjE)
  from rep have rep': "(''/iexec_out/kyc-verification-result.json'', Report rep)
        \<in> set (fst (main example_worker_env))"
    by simp
  from res have "map verificationStatus (verificationResults rep)
      = [Some VERIFIED, None, Some VERIFIED]"
    by (simp add: example_worker_statuses)
  with rep' have report: "\<exists>rep. (''/iexec_out/kyc-verification-result.json'', Report rep)
          \<in> set (fst (main example_worker_env)) \<and>
        map verificationStatus (verificationResults rep) = [Some VERIFIED, None, Some VERIFIED]"
    by (intro exI [of _ rep] conjI)
  have range: "(1::int) \<le> 2 \<and> (2::int) \<le> 3"
    by simp
  note item = entries [THEN conjunct2, THEN conjunct1, THEN spec [of _ 2], THEN mp, OF range,
      THEN conjunct2, THEN spec, THEN mp, OF second]
  from item ts have entry: "bulk_entries example_worker_env ! 1
       = Errored 2 ''Failed to load protected data'' ''2026-11-02T00:00:00.000Z''"
    by simp
  from once have once_good: "length (filter (\<lambda>f. fst f = ''/iexec_out/computed.json'')
        (fst (main example_worker_env))) = 1"
    by simp
  from success [THEN conjunct2, THEN conjunct1]
  have last_good: "last (fst (main example_worker_env)) =
        (''/iexec_out/computed.json'',
         Computed [(''deterministic-output-path'', ''/iexec_out/kyc-verification-result.json'')])"
    by simp
  from once' have once_bad: "length (filter (\<lambda>f. fst f = ''/iexec_out/computed.json'')
        (fst (main example_failing_env))) = 1"
    by simp
  from failure [THEN conjunct2]
  have last_bad: "last (fst (main example_failing_env)) =
        (''/iexec_out/computed.json'',
         Computed [(''deterministic-output-path'', ''/iexec_out''),
                   (''error-message'', ''Oops something went wrong'')])"
    by simp
  from resolved once_good last_good report entry once_bad last_bad show ?thesis
    by (intro conjI)
qed

end
